theory Spec2Isabelle
  imports Complex_Main "HOL-Library.Multiset"
begin

section \<open>Numbers and vectors\<close>

text \<open>
  The server computes on JavaScript numbers held in \<^verbatim>\<open>Float32Array\<close>s. The model takes a
  number to be either a real (exact arithmetic: no rounding, no overflow to infinity) or
  \<^verbatim>\<open>NaN\<close>, which is what arithmetic on \<^verbatim>\<open>undefined\<close> (a read past the end of an array)
  produces. Division by zero is never reached by the code below; the model maps it to
  \<^verbatim>\<open>NaN\<close>. The roundings of the code are taken up in the section on the neighbour
  search with rounding.
\<close>

datatype jsnum = Fin real | NaN

type_synonym vec = "jsnum list"

fun jadd :: "jsnum \<Rightarrow> jsnum \<Rightarrow> jsnum" where
  "jadd (Fin a) (Fin b) = Fin (a + b)"
| "jadd _ _ = NaN"

fun jsub :: "jsnum \<Rightarrow> jsnum \<Rightarrow> jsnum" where
  "jsub (Fin a) (Fin b) = Fin (a - b)"
| "jsub _ _ = NaN"

fun jmul :: "jsnum \<Rightarrow> jsnum \<Rightarrow> jsnum" where
  "jmul (Fin a) (Fin b) = Fin (a * b)"
| "jmul _ _ = NaN"

fun jdiv :: "jsnum \<Rightarrow> jsnum \<Rightarrow> jsnum" where
  "jdiv (Fin a) (Fin b) = (if b = 0 then NaN else Fin (a / b))"
| "jdiv _ _ = NaN"

fun jsqrt :: "jsnum \<Rightarrow> jsnum" where
  "jsqrt (Fin a) = (if a < 0 then NaN else Fin (sqrt a))"
| "jsqrt NaN = NaN"

text \<open>Truthiness of a number: \<^verbatim>\<open>0\<close> and \<^verbatim>\<open>NaN\<close> are falsy.\<close>

fun truthy :: "jsnum \<Rightarrow> bool" where
  "truthy (Fin a) = (a \<noteq> 0)"
| "truthy NaN = False"

text \<open>\<^verbatim>\<open>v[i]\<close> used as a number: past the end it is \<^verbatim>\<open>undefined\<close>, hence \<^verbatim>\<open>NaN\<close>.\<close>

definition rd :: "vec \<Rightarrow> nat \<Rightarrow> jsnum" where
  "rd v i = (if i < length v then v ! i else NaN)"

text \<open>
  \<^verbatim>\<open>
  function normalizeVec(vec) {
    let s = 0;
    for (let i = 0; i < vec.length; i++) s += vec[i] * vec[i];
    const norm = Math.sqrt(s) || 1;
    const out = new Float32Array(vec.length);
    for (let i = 0; i < vec.length; i++) out[i] = vec[i] / norm;
    return out;
  }
  \<close>
\<close>

definition sumsq :: "vec \<Rightarrow> jsnum" where
  "sumsq v = foldl (\<lambda>s x. jadd s (jmul x x)) (Fin 0) v"

definition norm_or_1 :: "vec \<Rightarrow> jsnum" where
  "norm_or_1 v = (let r = jsqrt (sumsq v) in if truthy r then r else Fin 1)"

definition normalizeVec :: "vec \<Rightarrow> vec" where
  "normalizeVec v = map (\<lambda>x. jdiv x (norm_or_1 v)) v"

text \<open>
  \<^verbatim>\<open>
  function dot(a, b) {
    let s = 0;
    for (let i = 0; i < a.length; i++) s += a[i] * b[i];
    return s;
  }
  \<close>
\<close>

definition dot :: "vec \<Rightarrow> vec \<Rightarrow> jsnum" where
  "dot a b = foldl (\<lambda>s i. jadd s (jmul (a ! i) (rd b i))) (Fin 0) [0..<length a]"

section \<open>Process state\<close>

datatype error =
    TypeError  \<comment> \<open>member access on \<^verbatim>\<open>null\<close>/\<^verbatim>\<open>undefined\<close>, destructuring a non-iterable\<close>
  | RangeError  \<comment> \<open>\<^verbatim>\<open>TypedArray.set\<close> past the end\<close>
  | SyntaxError  \<comment> \<open>\<^verbatim>\<open>JSON.parse\<close>\<close>
  | ProviderError  \<comment> \<open>the embedding pipeline throws, or \<^verbatim>\<open>embedMany\<close> rejects its output\<close>
  | CountMismatch  \<comment> \<open>\<^verbatim>\<open>Embedding count mismatch\<close>\<close>
  | PCAError  \<comment> \<open>the PCA library throws\<close>
  | IOError  \<comment> \<open>a file read or write fails\<close>

record cache_meta =
  meta_n :: nat
  meta_dim :: nat
  meta_normalized :: bool
  meta_signature :: string

text \<open>
  What \<^verbatim>\<open>JSON.parse\<close> makes of the metadata file: it throws, or returns \<^verbatim>\<open>null\<close>
  (reading \<^verbatim>\<open>meta.signature\<close> then throws), or a value without a \<^verbatim>\<open>signature\<close> that
  could match (a number, a string, a boolean, an array, an object that lacks the field or
  holds no string there), or an object with a signature. Of such an object the dimension
  and the flag are taken as a number and a boolean; a missing one acts as \<open>0\<close> or
  \<open>False\<close>.
\<close>

datatype meta_json = BadJSON | NullJSON | OtherJSON | Meta cache_meta

text \<open>
  A path either does not exist (\<open>None\<close>), or exists; \<^verbatim>\<open>readFile\<close> on an existing
  path throws (a directory, no permission) or gives the content.
\<close>

datatype 'a stored = Unreadable | Holds 'a

record files =
  vocab_file :: "string stored option"
  meta_file :: "meta_json stored option"
  bin_file :: "vec stored option"

text \<open>The module's globals, and the files under the cache and data directories.\<close>

record state =
  embedder :: bool
  vocab :: "string list"
  dim :: nat
  matrix :: "vec option"
  normalized :: bool
  disk :: files

text \<open>
  \<^verbatim>\<open>
  function getRow(i) {
    const start = i * dim;
    return matrix.subarray(start, start + dim);
  }
  \<close>
  \<^verbatim>\<open>subarray\<close> clamps both ends to the array, as \<open>take\<close> and \<open>drop\<close> do.
\<close>

definition getRow :: "vec \<Rightarrow> nat \<Rightarrow> nat \<Rightarrow> vec" where
  "getRow m d i = take d (drop (i * d) m)"

section \<open>Neighbour search\<close>

record neighbor =
  word :: string
  score :: jsnum
  index :: nat

text \<open>
  \<^verbatim>\<open>idxs.sort((a, b) => sims[b] - sims[a])\<close>: the sort is stable; a comparator value
  that is \<^verbatim>\<open>NaN\<close> counts as \<^verbatim>\<open>0\<close>. On scores without \<^verbatim>\<open>NaN\<close> the comparator is
  consistent and the result is the one stable order; with \<^verbatim>\<open>NaN\<close> scores the language
  leaves the order to the engine, and the model is one such engine (insertion sort).
\<close>

fun positive :: "jsnum \<Rightarrow> bool" where
  "positive (Fin a) = (0 < a)"
| "positive NaN = False"

fun insort_cmp :: "(nat \<Rightarrow> nat \<Rightarrow> jsnum) \<Rightarrow> nat \<Rightarrow> nat list \<Rightarrow> nat list" where
  "insort_cmp c x [] = [x]"
| "insort_cmp c x (y # ys) =
     (if positive (c x y) then y # insort_cmp c x ys else x # y # ys)"

definition sort_cmp :: "(nat \<Rightarrow> nat \<Rightarrow> jsnum) \<Rightarrow> nat list \<Rightarrow> nat list" where
  "sort_cmp c xs = foldr (insort_cmp c) xs []"

text \<open>
  \<^verbatim>\<open>
  function topKSimilar(targetVec, k = DEFAULT_K, exclude = new Set()) {
    const q = normalized ? normalizeVec(targetVec) : targetVec;
    const sims = new Float32Array(vocab.length);
    for (let i = 0; i < vocab.length; i++) {
      sims[i] = dot(getRow(i), q);
    }
    const idxs = [...sims.keys()];
    idxs.sort((a, b) => sims[b] - sims[a]);

    const res = [];
    for (const i of idxs) {
      const w = vocab[i];
      if (exclude.has(w)) continue;
      res.push({ word: w, score: sims[i], index: i });
      if (res.length >= k) break;
    }
    return res;
  }
  \<close>
  The function is the same in both server files. \<^verbatim>\<open>getRow\<close> on a \<^verbatim>\<open>null\<close> matrix
  throws, which happens as soon as the vocabulary has a word.
\<close>

definition similarities :: "state \<Rightarrow> vec \<Rightarrow> vec \<Rightarrow> vec" where
  "similarities s m q = map (\<lambda>i. dot (getRow m (dim s) i) q) [0..<length (vocab s)]"

fun walk :: "string list \<Rightarrow> vec \<Rightarrow> int \<Rightarrow> string set \<Rightarrow> nat list \<Rightarrow> neighbor list \<Rightarrow> neighbor list" where
  "walk voc sims k exclude [] res = res"
| "walk voc sims k exclude (i # idxs) res =
     (if voc ! i \<in> exclude then walk voc sims k exclude idxs res
      else let res' = res @ [\<lparr>word = voc ! i, score = sims ! i, index = i\<rparr>]
           in if k \<le> int (length res') then res' else walk voc sims k exclude idxs res')"

definition ranked :: "state \<Rightarrow> vec \<Rightarrow> vec \<Rightarrow> nat list" where
  "ranked s m q =
     (let sims = similarities s m q
      in sort_cmp (\<lambda>a b. jsub (sims ! b) (sims ! a)) [0..<length sims])"

definition topKSimilar :: "state \<Rightarrow> vec \<Rightarrow> int \<Rightarrow> string set \<Rightarrow> error + neighbor list" where
  "topKSimilar s targetVec k exclude =
     (let q = (if normalized s then normalizeVec targetVec else targetVec)
      in case matrix s of
           None \<Rightarrow> (if vocab s = [] then Inr [] else Inl TypeError)
         | Some m \<Rightarrow>
             Inr (walk (vocab s) (similarities s m q) k exclude (ranked s m q) []))"


definition entry :: "string list \<Rightarrow> vec \<Rightarrow> nat \<Rightarrow> neighbor" where
  "entry voc sims i = \<lparr>word = voc ! i, score = sims ! i, index = i\<rparr>"

text \<open>The rows a search may return: the vocabulary rows whose word is not excluded.\<close>

definition available :: "state \<Rightarrow> string set \<Rightarrow> nat list" where
  "available s exclude = filter (\<lambda>i. vocab s ! i \<notin> exclude) [0..<length (vocab s)]"

text \<open>Order on scores: \<^verbatim>\<open>a >= b\<close> in JavaScript, false as soon as one side is \<^verbatim>\<open>NaN\<close>.\<close>

fun jge :: "jsnum \<Rightarrow> jsnum \<Rightarrow> bool" where
  "jge (Fin a) (Fin b) = (b \<le> a)"
| "jge _ _ = False"

section \<open>The embedding provider\<close>

text \<open>
  What the pipeline may hand back for one item (\<^verbatim>\<open>toVec\<close> tells the shapes apart): an
  object with a \<^verbatim>\<open>data\<close> field, a \<^verbatim>\<open>Float32Array\<close>, a plain array of numbers, or
  anything else. For a whole call: an array of items, or one of the other shapes.
\<close>

datatype item = Tensor vec | F32 vec | NumArray vec | Junk

datatype pipe_out = OutArray "item list" | OutTensor vec | OutF32 vec | OutJunk

text \<open>
  The collaborators outside the repository: the transformers pipeline, the hash behind
  \<^verbatim>\<open>hashJSON\<close>, \<^verbatim>\<open>String.prototype.replaceAll\<close>, the PCA library and the success of
  the two file writes. \<open>None\<close> is a call that throws. \<open>pipe_test\<close> is the call on
  \<^verbatim>\<open>'test'\<close> that \<^verbatim>\<open>ensureEmbedder\<close> makes, \<open>pipe\<close> the call on a batch of texts,
  \<open>pipe_undefined\<close> the call on \<^verbatim>\<open>[undefined]\<close>; \<open>replaceAll template w\<close> is
  \<^verbatim>\<open>template.replaceAll('{w}', w)\<close>; the three PCA fields are the constructor, \<^verbatim>\<open>predict\<close>
  and \<^verbatim>\<open>getExplainedVariance\<close> on the data \<open>X\<close>.
\<close>

record env =
  pipeline_loads :: bool
  pipe_test :: "pipe_out option"
  pipe :: "string list \<Rightarrow> pipe_out option"
  pipe_undefined :: "pipe_out option"
  sha256_json :: "string \<Rightarrow> nat \<Rightarrow> string list \<Rightarrow> string \<Rightarrow> string"
  replaceAll :: "string \<Rightarrow> string \<Rightarrow> string"
  pca_new :: "vec list \<Rightarrow> bool"
  pca_predict :: "vec list \<Rightarrow> nat \<Rightarrow> vec list option"
  pca_explained :: "vec list \<Rightarrow> vec option"
  bin_write_ok :: bool
  meta_write_ok :: bool

text \<open>
  \<^verbatim>\<open>MODEL_ID\<close> and \<^verbatim>\<open>BATCH_SIZE\<close> at the defaults the source gives them when the
  environment sets nothing.
\<close>

definition MODEL_ID :: string where
  "MODEL_ID = ''Xenova/all-MiniLM-L6-v2''"

definition BATCH_SIZE :: nat where
  "BATCH_SIZE = 64"

definition hashJSON :: "env \<Rightarrow> nat \<Rightarrow> string list \<Rightarrow> string \<Rightarrow> string" where
  "hashJSON e d voc contextTemplate = sha256_json e MODEL_ID d voc contextTemplate"

text \<open>
  \<^verbatim>\<open>
  function wordsToTexts(words, template = '{w}') {
    return words.map(w => (template.includes('{w}') ? template.replaceAll('{w}', w) : w));
  }
  \<close>
\<close>

fun js_includes :: "string \<Rightarrow> string \<Rightarrow> bool" where
  "js_includes [] p = (p = [])"
| "js_includes (c # cs) p = (take (length p) (c # cs) = p \<or> js_includes cs p)"

definition wordsToTexts :: "env \<Rightarrow> string list \<Rightarrow> string \<Rightarrow> string list" where
  "wordsToTexts e words template =
     map (\<lambda>w. if js_includes template ''{w}'' then replaceAll e template w else w) words"

text \<open>
  \<^verbatim>\<open>
  async function ensureEmbedder() {
    if (embedder) return embedder;
    embedder = await pipeline('feature-extraction', MODEL_ID, { quantized: true });
    const test = await embedder('test', { pooling: 'mean', normalize: true });
    dim = test.data ? test.data.length : test.length;
    return embedder;
  }
  \<close>
  A test output without \<^verbatim>\<open>data\<close> and without \<^verbatim>\<open>length\<close> leaves \<^verbatim>\<open>dim\<close> undefined,
  which every later use (\<^verbatim>\<open>!dim\<close>, \<^verbatim>\<open>j < dim\<close>, \<^verbatim>\<open>n * dim\<close> as a length or an
  offset) treats as \<open>0\<close>.
\<close>

fun test_dim :: "pipe_out \<Rightarrow> nat" where
  "test_dim (OutTensor v) = length v"
| "test_dim (OutF32 v) = length v"
| "test_dim (OutArray xs) = length xs"
| "test_dim OutJunk = 0"

definition ensureEmbedder :: "env \<Rightarrow> state \<Rightarrow> (error + unit) \<times> state" where
  "ensureEmbedder e s =
     (if embedder s then (Inr (), s)
      else if \<not> pipeline_loads e then (Inl ProviderError, s)
      else let s1 = s\<lparr>embedder := True\<rparr>
           in case pipe_test e of
                None \<Rightarrow> (Inl ProviderError, s1)
              | Some out \<Rightarrow> (Inr (), s1\<lparr>dim := test_dim out\<rparr>))"

text \<open>
  \<^verbatim>\<open>
  async function embedMany(texts) {
    const pipe = await ensureEmbedder();
    const out = await pipe(texts, { pooling: 'mean', normalize: true });
    const toVec = (x) => {
      if (x?.data) return (x.data instanceof Float32Array) ? x.data : Float32Array.from(x.data);
      if (x instanceof Float32Array) return x;
      if (Array.isArray(x)) return Float32Array.from(x);
      return null;
    };
    if (Array.isArray(out)) {
      const vecs = out.map(toVec);
      if (vecs.some(v => v == null)) throw new Error('Unexpected embedding output (array case)');
      return vecs;
    }
    const vec = toVec(out);
    if (!vec) throw new Error('Unexpected embedding output (tensor case)');
    if (!dim) throw new Error('Embedding dimension not initialized');
    const n = Math.round(vec.length / dim);
    if (n * dim !== vec.length) return [vec];
    if (n === 1) return [vec];
    const res = new Array(n);
    for (let i = 0; i < n; i++) res[i] = vec.subarray(i * dim, (i + 1) * dim);
    return res;
  }
  \<close>
\<close>

fun toVec :: "item \<Rightarrow> vec option" where
  "toVec (Tensor v) = Some v"
| "toVec (F32 v) = Some v"
| "toVec (NumArray v) = Some v"
| "toVec Junk = None"

definition js_round_div :: "nat \<Rightarrow> nat \<Rightarrow> nat" where
  "js_round_div a d = (2 * a + d) div (2 * d)"

definition split_by_dim :: "nat \<Rightarrow> vec \<Rightarrow> error + vec list" where
  "split_by_dim d v =
     (if d = 0 then Inl ProviderError
      else let n = js_round_div (length v) d
           in if n * d \<noteq> length v then Inr [v]
              else if n = 1 then Inr [v]
              else Inr (map (\<lambda>i. take d (drop (i * d) v)) [0..<n]))"

definition decode :: "nat \<Rightarrow> pipe_out \<Rightarrow> error + vec list" where
  "decode d out =
     (case out of
        OutArray xs \<Rightarrow>
          (let vecs = map toVec xs
           in if None \<in> set vecs then Inl ProviderError else Inr (map the vecs))
      | OutTensor v \<Rightarrow> split_by_dim d v
      | OutF32 v \<Rightarrow> split_by_dim d v
      | OutJunk \<Rightarrow> Inl ProviderError)"

definition embed_out :: "env \<Rightarrow> pipe_out option \<Rightarrow> state \<Rightarrow> (error + vec list) \<times> state" where
  "embed_out e out s =
     (case ensureEmbedder e s of
        (Inl err, s1) \<Rightarrow> (Inl err, s1)
      | (Inr _, s1) \<Rightarrow>
          (case out of
             None \<Rightarrow> (Inl ProviderError, s1)
           | Some r \<Rightarrow> (decode (dim s1) r, s1)))"

definition embedMany :: "env \<Rightarrow> string list \<Rightarrow> state \<Rightarrow> (error + vec list) \<times> state" where
  "embedMany e texts s = embed_out e (pipe e texts) s"


section \<open>Vocabulary\<close>

text \<open>
  \<^verbatim>\<open>
  async function loadVocab() {
    if (await fs.pathExists(VOCAB_PATH)) {
      const raw = await fs.readFile(VOCAB_PATH, 'utf8');
      const lines = raw.split(/\r?\n/).map(x => x.trim()).filter(Boolean);
      vocab = Array.from(new Set(lines)); // dedupe
    } else {
      vocab = [ 'garden','gardening', ... ];
    }
  }
  \<close>
  Characters are bytes here, so \<^verbatim>\<open>trim\<close> strips the ASCII white space only; the carriage
  return that the separator may take is white space, which \<^verbatim>\<open>trim\<close> strips anyway.
  A \<^verbatim>\<open>Set\<close> keeps the first occurrence of each line.
\<close>

fun split_on :: "char \<Rightarrow> string \<Rightarrow> string list" where
  "split_on c [] = [[]]"
| "split_on c (x # xs) =
     (if x = c then [] # split_on c xs
      else (case split_on c xs of [] \<Rightarrow> [[x]] | l # ls \<Rightarrow> (x # l) # ls))"

definition is_space :: "char \<Rightarrow> bool" where
  "is_space c = (c \<in> set [CHR 0x09, CHR 0x0A, CHR 0x0B, CHR 0x0C, CHR 0x0D, CHR 0x20])"

definition trim :: "string \<Rightarrow> string" where
  "trim x = rev (dropWhile is_space (rev (dropWhile is_space x)))"

definition dedupe :: "string list \<Rightarrow> string list" where
  "dedupe xs = rev (remdups (rev xs))"

definition DEFAULT_VOCAB :: "string list" where
  "DEFAULT_VOCAB =
     [''garden'', ''gardening'', ''belief'', ''believing'', ''fight'', ''fighting'',
      ''run'', ''running'', ''walk'', ''walking'', ''play'', ''playing'', ''think'', ''thinking'',
      ''write'', ''writing'', ''drive'', ''driving'', ''code'', ''coding'', ''swim'', ''swimming'',
      ''invent'', ''inventing'', ''create'', ''creating'', ''design'', ''designing'', ''build'',
      ''building'', ''teacher'', ''student'', ''pilot'', ''sailor'', ''engineer'', ''scientist'',
      ''company'', ''market'', ''product'', ''prototype'', ''research'', ''energy'', ''health'',
      ''transportation'', ''data'', ''model'', ''language'', ''word'', ''verb'', ''noun'',
      ''adjective'', ''adverb'', ''plural'', ''past'', ''future'', ''fast'', ''faster'',
      ''fastest'', ''smart'', ''smarter'', ''smartest'', ''happy'', ''happier'', ''happiest'',
      ''good'', ''better'', ''best'', ''bad'', ''worse'', ''worst'', ''large'', ''larger'',
      ''largest'', ''dog'', ''dogs'', ''cat'', ''cats'', ''city'', ''cities'', ''child'',
      ''children'', ''mouse'', ''mice'']"

definition loadVocab :: "state \<Rightarrow> (error + unit) \<times> state" where
  "loadVocab s =
     (case vocab_file (disk s) of
        Some Unreadable \<Rightarrow> (Inl IOError, s)
      | Some (Holds raw) \<Rightarrow>
          (Inr (),
           s\<lparr>vocab := dedupe (filter (\<lambda>x. x \<noteq> []) (map trim (split_on (CHR 0x0A) raw)))\<rparr>)
      | None \<Rightarrow> (Inr (), s\<lparr>vocab := DEFAULT_VOCAB\<rparr>))"

section \<open>The embedding cache\<close>

text \<open>
  \<^verbatim>\<open>matrix.set(source, offset)\<close> throws a \<^verbatim>\<open>RangeError\<close> when the source does not fit.
\<close>

definition set_at :: "vec \<Rightarrow> vec \<Rightarrow> nat \<Rightarrow> vec option" where
  "set_at m src off =
     (if length m < off + length src then None
      else Some (take off m @ src @ drop (off + length src) m))"

text \<open>
  \<^verbatim>\<open>for (let j = 0; j < embs.length; j++) matrix.set(embs[j], (i + j) * dim);\<close>
  with \<open>r\<close> the row \<^verbatim>\<open>i + j\<close>. The matrix is written in place, so an error leaves the rows
  written so far.
\<close>

fun setRows :: "vec list \<Rightarrow> nat \<Rightarrow> nat \<Rightarrow> vec \<Rightarrow> error option \<times> vec" where
  "setRows [] r d m = (None, m)"
| "setRows (v # vs) r d m =
     (case set_at m v (r * d) of
        None \<Rightarrow> (Some RangeError, m)
      | Some m' \<Rightarrow> setRows vs (Suc r) d m')"

text \<open>
  \<^verbatim>\<open>
  for (let i = 0; i < n; i += BATCH_SIZE) {
    const batch = texts.slice(i, i + BATCH_SIZE);
    const embs = await embedMany(batch);
    for (let j = 0; j < embs.length; j++) matrix.set(embs[j], (i + j) * dim);
  }
  \<close>
\<close>

function fillBatches :: "env \<Rightarrow> string list \<Rightarrow> nat \<Rightarrow> state \<Rightarrow> (error + unit) \<times> state" where
  "fillBatches e texts i s =
     (if i < length texts then
        (case embedMany e (take BATCH_SIZE (drop i texts)) s of
           (Inl err, s1) \<Rightarrow> (Inl err, s1)
         | (Inr embs, s1) \<Rightarrow>
             (case matrix s1 of
                None \<Rightarrow> (if embs = [] then fillBatches e texts (i + BATCH_SIZE) s1
                          else (Inl TypeError, s1))
              | Some m \<Rightarrow>
                  (case setRows embs i (dim s1) m of
                     (Some err, m') \<Rightarrow> (Inl err, s1\<lparr>matrix := Some m'\<rparr>)
                   | (None, m') \<Rightarrow> fillBatches e texts (i + BATCH_SIZE) (s1\<lparr>matrix := Some m'\<rparr>))))
      else (Inr (), s))"
  by pat_completeness auto
termination
  by (relation "measure (\<lambda>(e, texts, i, s). length texts - i)") (auto simp: BATCH_SIZE_def)

declare fillBatches.simps [simp del]

text \<open>
  \<^verbatim>\<open>
  for (let i = 0; i < n; i++) {
    const row = getRow(i);
    const normed = normalizeVec(row);
    matrix.set(normed, i * dim);
  }
  \<close>
\<close>

fun normalizeRows :: "nat list \<Rightarrow> nat \<Rightarrow> vec \<Rightarrow> error option \<times> vec" where
  "normalizeRows [] d m = (None, m)"
| "normalizeRows (i # is) d m =
     (case set_at m (normalizeVec (getRow m d i)) (i * d) of
        None \<Rightarrow> (Some RangeError, m)
      | Some m' \<Rightarrow> normalizeRows is d m')"

text \<open>
  The rest of the rebuild, from the normalisation of the rows to the two file writes:
  \<^verbatim>\<open>
  normalized = true;
  await fs.writeFile(binPath, Buffer.from(matrix.buffer));
  await fs.writeFile(metaPath, JSON.stringify({ n: vocab.length, dim, normalized, signature }, null, 2));
  \<close>
  The blob file is modelled by the numbers it holds. The matrix is never \<^verbatim>\<open>null\<close> here;
  were it, the first row read (or, without rows, \<^verbatim>\<open>matrix.buffer\<close>) would throw.
\<close>

definition finishBuild :: "env \<Rightarrow> string \<Rightarrow> state \<Rightarrow> (error + unit) \<times> state" where
  "finishBuild e signature s =
     (case matrix s of
        None \<Rightarrow> (if vocab s = [] then (Inl TypeError, s\<lparr>normalized := True\<rparr>) else (Inl TypeError, s))
      | Some m \<Rightarrow>
          (case normalizeRows [0..<length (vocab s)] (dim s) m of
             (Some err, m') \<Rightarrow> (Inl err, s\<lparr>matrix := Some m'\<rparr>)
           | (None, m') \<Rightarrow>
               (let s1 = s\<lparr>matrix := Some m', normalized := True\<rparr>
                in if \<not> bin_write_ok e then (Inl IOError, s1)
                   else let s2 = s1\<lparr>disk := (disk s1)\<lparr>bin_file := Some (Holds m')\<rparr>\<rparr>
                        in if \<not> meta_write_ok e then (Inl IOError, s2)
                           else (Inr (),
                                 s2\<lparr>disk := (disk s2)\<lparr>meta_file := Some (Holds (Meta
                                   \<lparr>meta_n = length (vocab s2), meta_dim = dim s2,
                                    meta_normalized = normalized s2,
                                    meta_signature = signature\<rparr>))\<rparr>\<rparr>))))"

text \<open>
  The rebuild of \<^verbatim>\<open>src/server/index.js\<close>:
  \<^verbatim>\<open>
  const texts = wordsToTexts(vocab, contextTemplate);
  const n = vocab.length;
  matrix = new Float32Array(n * dim);
  \<close>
  then the batches, the normalisation and the writes.
\<close>

definition rebuild_server :: "env \<Rightarrow> string \<Rightarrow> string \<Rightarrow> state \<Rightarrow> (error + unit) \<times> state" where
  "rebuild_server e contextTemplate signature s =
     (let texts = wordsToTexts e (vocab s) contextTemplate;
          s1 = s\<lparr>matrix := Some (replicate (length (vocab s) * dim s) (Fin 0))\<rparr>
      in case fillBatches e texts 0 s1 of
           (Inl err, s2) \<Rightarrow> (Inl err, s2)
         | (Inr _, s2) \<Rightarrow> finishBuild e signature s2)"

text \<open>
  The rebuild of \<^verbatim>\<open>src/unnamed/part_002\<close> probes the dimension first:
  \<^verbatim>\<open>
  if (!dim) {
    const probe = await embedMany([texts[0]]);
    dim = probe[0].length;
  }
  \<close>
  With an empty vocabulary the probe is \<^verbatim>\<open>embedMany([undefined])\<close>.
\<close>

definition probe_dim :: "env \<Rightarrow> string list \<Rightarrow> state \<Rightarrow> (error + unit) \<times> state" where
  "probe_dim e texts s =
     (if dim s \<noteq> 0 then (Inr (), s)
      else case embed_out e (case texts of [] \<Rightarrow> pipe_undefined e | t # _ \<Rightarrow> pipe e [t]) s of
             (Inl err, s1) \<Rightarrow> (Inl err, s1)
           | (Inr probe, s1) \<Rightarrow>
               (case probe of
                  [] \<Rightarrow> (Inl TypeError, s1)
                | v # _ \<Rightarrow> (Inr (), s1\<lparr>dim := length v\<rparr>)))"

definition rebuild_part002 :: "env \<Rightarrow> string \<Rightarrow> string \<Rightarrow> state \<Rightarrow> (error + unit) \<times> state" where
  "rebuild_part002 e contextTemplate signature s =
     (let texts = wordsToTexts e (vocab s) contextTemplate
      in case probe_dim e texts s of
           (Inl err, s0) \<Rightarrow> (Inl err, s0)
         | (Inr _, s0) \<Rightarrow>
             (let s1 = s0\<lparr>matrix := Some (replicate (length (vocab s0) * dim s0) (Fin 0))\<rparr>
              in case fillBatches e texts 0 s1 of
                   (Inl err, s2) \<Rightarrow> (Inl err, s2)
                 | (Inr _, s2) \<Rightarrow> finishBuild e signature s2))"

text \<open>
  \<^verbatim>\<open>
  async function buildOrLoadEmbeddingMatrix(contextTemplate = '{w}') {
    await loadVocab();
    await ensureEmbedder();
    const signature = hashJSON({ model: MODEL_ID, dim, vocab, contextTemplate });
    if (await fs.pathExists(metaPath) && await fs.pathExists(binPath)) {
      const meta = JSON.parse(await fs.readFile(metaPath, 'utf8'));
      if (meta.signature === signature) {
        const buf = await fs.readFile(binPath);
        matrix = new Float32Array(u8.buffer, u8.byteOffset, u8.byteLength / 4);
        dim = meta.dim;
        normalized = meta.normalized;
        return;
      }
    }
    ... rebuild ...
  }
  \<close>
  The two files differ in the rebuild only, which is the parameter \<open>rebuild\<close>. The
  buffer that \<^verbatim>\<open>readFile\<close> returns starts at an offset that is a multiple of four, so
  the \<^verbatim>\<open>Float32Array\<close> over it is always built.
\<close>

definition buildOrLoad ::
  "(env \<Rightarrow> string \<Rightarrow> string \<Rightarrow> state \<Rightarrow> (error + unit) \<times> state) \<Rightarrow>
   env \<Rightarrow> string \<Rightarrow> state \<Rightarrow> (error + unit) \<times> state" where
  "buildOrLoad rebuild e contextTemplate s =
     (case loadVocab s of
        (Inl err, s0) \<Rightarrow> (Inl err, s0)
      | (Inr _, s0) \<Rightarrow>
     (case ensureEmbedder e s0 of
        (Inl err, s1) \<Rightarrow> (Inl err, s1)
      | (Inr _, s1) \<Rightarrow>
          (let signature = hashJSON e (dim s1) (vocab s1) contextTemplate
           in case (meta_file (disk s1), bin_file (disk s1)) of
                (Some mf, Some bf) \<Rightarrow>
                  (case mf of
                     Unreadable \<Rightarrow> (Inl IOError, s1)
                   | Holds BadJSON \<Rightarrow> (Inl SyntaxError, s1)
                   | Holds NullJSON \<Rightarrow> (Inl TypeError, s1)
                   | Holds OtherJSON \<Rightarrow> rebuild e contextTemplate signature s1
                   | Holds (Meta meta) \<Rightarrow>
                       if meta_signature meta = signature
                       then (case bf of
                               Unreadable \<Rightarrow> (Inl IOError, s1)
                             | Holds blob \<Rightarrow>
                                 (Inr (), s1\<lparr>matrix := Some blob, dim := meta_dim meta,
                                              normalized := meta_normalized meta\<rparr>))
                       else rebuild e contextTemplate signature s1)
              | _ \<Rightarrow> rebuild e contextTemplate signature s1)))"

definition buildOrLoadEmbeddingMatrix_server :: "env \<Rightarrow> string \<Rightarrow> state \<Rightarrow> (error + unit) \<times> state" where
  "buildOrLoadEmbeddingMatrix_server = buildOrLoad rebuild_server"

definition buildOrLoadEmbeddingMatrix_part002 :: "env \<Rightarrow> string \<Rightarrow> state \<Rightarrow> (error + unit) \<times> state" where
  "buildOrLoadEmbeddingMatrix_part002 = buildOrLoad rebuild_part002"


section \<open>Projection\<close>

datatype kind = Neighbor | Target | Predicted | SeedFrom | SeedTo

text \<open>
  A point handed to \<^verbatim>\<open>makePCA\<close>. Its vector is \<^verbatim>\<open>undefined\<close> where the handler read
  past the end of the embeddings.
\<close>

record ppoint =
  pid :: string
  plabel :: string
  pkind :: kind
  pvec :: "vec option"
  pscore :: "jsnum option"

record placed =
  point :: ppoint
  px :: jsnum
  py :: jsnum
  pz :: jsnum

text \<open>\<^verbatim>\<open>v || 0\<close> and \<^verbatim>\<open>Number.isFinite(v) ? v : 0\<close>.\<close>

definition or0 :: "jsnum \<Rightarrow> jsnum" where
  "or0 v = (if truthy v then v else Fin 0)"

fun finite_or0 :: "jsnum \<Rightarrow> jsnum" where
  "finite_or0 (Fin a) = Fin a"
| "finite_or0 NaN = Fin 0"

text \<open>
  \<^verbatim>\<open>src/server/index.js\<close>:
  \<^verbatim>\<open>
  function makePCA(points) {
    if (!points.length) return { points: [], explainedVariance: [] };
    const X = points.map(p => Array.from(p.vec));
    const nDims = X[0].length || 0;
    const components = Math.max(1, Math.min(3, nDims));
    const pca = new PCA(X, { center: true, scale: false });
    const Y = pca.predict(X, { nComponents: components }).to2DArray();
    const ev = pca.getExplainedVariance();
    for (let i = 0; i < points.length; i++) {
      points[i].x = Y[i][0] || 0;
      points[i].y = Y[i][1] || 0;
      points[i].z = Y[i][2] || 0;
    }
    return { points, explainedVariance: ev.slice(0, components) };
  }
  \<close>
  Nothing is caught here: a throw of the library leaves the function.
\<close>

definition makePCA_server :: "env \<Rightarrow> ppoint list \<Rightarrow> error + (placed list \<times> vec)" where
  "makePCA_server e points =
     (if points = [] then Inr ([], [])
      else if None \<in> set (map pvec points) then Inl TypeError
      else let X = map (\<lambda>p. the (pvec p)) points;
               nDims = length (hd X);
               components = max 1 (min 3 nDims)
           in if \<not> pca_new e X then Inl PCAError
              else case pca_predict e X components of
                     None \<Rightarrow> Inl PCAError
                   | Some Y \<Rightarrow>
                       (case pca_explained e X of
                          None \<Rightarrow> Inl PCAError
                        | Some ev \<Rightarrow>
                            if length Y < length points then Inl TypeError
                            else Inr (map (\<lambda>(p, c). \<lparr>point = p, px = or0 (rd c 0),
                                                     py = or0 (rd c 1), pz = or0 (rd c 2)\<rparr>)
                                        (zip points Y),
                                      take components ev)))"

text \<open>
  \<^verbatim>\<open>src/unnamed/part_002\<close>:
  \<^verbatim>\<open>
  function makePCA(points) {
    if (!points.length) return { points, explainedVariance: [0, 0, 0] };
    const X = points.map((p) => Array.from(p.vec));
    let Y = [];
    let ev = [];
    try {
      const pca = new PCA(X, { center: true, scale: false });
      const nComponents = Math.min(3, Math.max(1, Math.min(X[0]?.length || 0, points.length)));
      if (nComponents > 0) {
        Y = pca.predict(X, { nComponents }).to2DArray();
        ev = pca.getExplainedVariance();
      }
    } catch (err) {
      console.warn('[pca] projection failed, falling back to zeros:', err);
    }
    if (!Y.length) Y = X.map(() => [0, 0, 0]);
    for (let i = 0; i < points.length; i++) {
      const coords = Array.isArray(Y[i]) ? Y[i] : [];
      const x = Number.isFinite(coords[0]) ? coords[0] : 0;
      const y = Number.isFinite(coords[1]) ? coords[1] : 0;
      const z = Number.isFinite(coords[2]) ? coords[2] : 0;
      points[i].x = x; points[i].y = y; points[i].z = z;
    }
    return { points, explainedVariance: [ev[0] || 0, ev[1] || 0, ev[2] || 0] };
  }
  \<close>
\<close>

definition try_pca :: "env \<Rightarrow> vec list \<Rightarrow> nat \<Rightarrow> vec list \<times> vec" where
  "try_pca e X npoints =
     (if \<not> pca_new e X then ([], [])
      else let nComponents = min 3 (max 1 (min (length (hd X)) npoints))
           in case pca_predict e X nComponents of
                None \<Rightarrow> ([], [])
              | Some Y \<Rightarrow>
                  (case pca_explained e X of
                     None \<Rightarrow> (Y, [])
                   | Some ev \<Rightarrow> (Y, ev)))"

definition place_part002 :: "vec list \<Rightarrow> nat \<Rightarrow> ppoint \<Rightarrow> placed" where
  "place_part002 Y i p =
     (let coords = (if i < length Y then Y ! i else [])
      in \<lparr>point = p, px = finite_or0 (rd coords 0), py = finite_or0 (rd coords 1),
          pz = finite_or0 (rd coords 2)\<rparr>)"

definition makePCA_part002 :: "env \<Rightarrow> ppoint list \<Rightarrow> error + (placed list \<times> vec)" where
  "makePCA_part002 e points =
     (if points = [] then Inr ([], [Fin 0, Fin 0, Fin 0])
      else if None \<in> set (map pvec points) then Inl TypeError
      else let X = map (\<lambda>p. the (pvec p)) points;
               (Y0, ev) = try_pca e X (length points);
               Y = (if Y0 = [] then map (\<lambda>_. [Fin 0, Fin 0, Fin 0]) X else Y0)
           in Inr (map (\<lambda>i. place_part002 Y i (points ! i)) [0..<length points],
                   [or0 (rd ev 0), or0 (rd ev 1), or0 (rd ev 2)]))"

section \<open>The search request\<close>

text \<open>
  The body of a request. The pair list is an array whose entries are any JSON values; the
  other fields have the types the handler expects, with its defaults filled in.
\<close>

datatype jsval = JUndef | JNull | JBool bool | JNum real | JStr string | JArr "jsval list" | JObj

record request =
  req_pairs :: "jsval list"
  req_target :: string
  req_k :: int
  req_template :: string
  req_includeSeeds :: bool
  req_excludeInputs :: bool

text \<open>
  \<^verbatim>\<open>const [a, b] = entry\<close>: an array gives its first two members, a string its first two
  characters, \<^verbatim>\<open>undefined\<close> where there is none; any other value is not iterable.
\<close>

definition elem_at :: "jsval list \<Rightarrow> nat \<Rightarrow> jsval" where
  "elem_at xs i = (if i < length xs then xs ! i else JUndef)"

fun destructure :: "jsval \<Rightarrow> error + (jsval \<times> jsval)" where
  "destructure (JArr xs) = Inr (elem_at xs 0, elem_at xs 1)"
| "destructure (JStr cs) = Inr (elem_at (map (\<lambda>c. JStr [c]) cs) 0, elem_at (map (\<lambda>c. JStr [c]) cs) 1)"
| "destructure _ = Inl TypeError"

text \<open>
  \<^verbatim>\<open>
  for (const [a, b] of pairs) {
    if (typeof a !== 'string' || typeof b !== 'string') continue;
    pairObjs.push({ a, b });
    flatWords.push(a, b);
  }
  flatWords.push(target);
  \<close>
\<close>

fun collectPairs :: "jsval list \<Rightarrow> error + (string \<times> string) list" where
  "collectPairs [] = Inr []"
| "collectPairs (p # ps) =
     (case destructure p of
        Inl err \<Rightarrow> Inl err
      | Inr (JStr a, JStr b) \<Rightarrow>
          (case collectPairs ps of Inl err \<Rightarrow> Inl err | Inr r \<Rightarrow> Inr ((a, b) # r))
      | Inr _ \<Rightarrow> collectPairs ps)"

definition flatWords :: "(string \<times> string) list \<Rightarrow> string \<Rightarrow> string list" where
  "flatWords pairObjs target = concat (map (\<lambda>(a, b). [a, b]) pairObjs) @ [target]"

text \<open>\<^verbatim>\<open>xs[i]\<close> on an array of vectors: \<^verbatim>\<open>undefined\<close> out of range (also for \<^verbatim>\<open>xs[-1]\<close>).\<close>

definition vec_at :: "vec list \<Rightarrow> nat \<Rightarrow> vec option" where
  "vec_at xs i = (if i < length xs then Some (xs ! i) else None)"

definition last_at :: "vec list \<Rightarrow> vec option" where
  "last_at xs = (if xs = [] then None else Some (last xs))"

text \<open>
  \<^verbatim>\<open>
  const delta = new Float32Array(dim);
  for (let j = 0; j < dim; j++) delta[j] = toEmb[j] - fromEmb[j];
  \<close>
  Reading a component of \<^verbatim>\<open>undefined\<close> throws, which takes one round of the loop.
\<close>

definition delta_of :: "nat \<Rightarrow> vec option \<Rightarrow> vec option \<Rightarrow> error + vec" where
  "delta_of d fromEmb toEmb =
     (if d = 0 then Inr []
      else case (fromEmb, toEmb) of
             (Some f, Some t) \<Rightarrow> Inr (map (\<lambda>j. jsub (rd t j) (rd f j)) [0..<d])
           | _ \<Rightarrow> Inl TypeError)"

fun deltas_from :: "nat \<Rightarrow> vec list \<Rightarrow> nat list \<Rightarrow> error + vec list" where
  "deltas_from d embs [] = Inr []"
| "deltas_from d embs (i # is) =
     (case delta_of d (vec_at embs (2 * i)) (vec_at embs (2 * i + 1)) of
        Inl err \<Rightarrow> Inl err
      | Inr dl \<Rightarrow> (case deltas_from d embs is of Inl err \<Rightarrow> Inl err | Inr r \<Rightarrow> Inr (dl # r)))"

text \<open>
  \<^verbatim>\<open>
  const avgDelta = new Float32Array(dim);
  for (const d of deltas) for (let j = 0; j < dim; j++) avgDelta[j] += d[j];
  if (deltas.length > 0) for (let j = 0; j < dim; j++) avgDelta[j] /= deltas.length;
  \<close>
\<close>

definition avgDelta_of :: "nat \<Rightarrow> vec list \<Rightarrow> vec" where
  "avgDelta_of d deltas =
     map (\<lambda>j. let total = foldl (\<lambda>acc dl. jadd acc (rd dl j)) (Fin 0) deltas
              in if deltas \<noteq> [] then jdiv total (Fin (real (length deltas))) else total)
       [0..<d]"

text \<open>
  \<^verbatim>\<open>
  const transformed = new Float32Array(dim);
  for (let j = 0; j < dim; j++) transformed[j] = targetEmb[j] + avgDelta[j];
  \<close>
\<close>

definition transformed_of :: "nat \<Rightarrow> vec option \<Rightarrow> vec \<Rightarrow> error + vec" where
  "transformed_of d targetEmb avg =
     (if d = 0 then Inr []
      else case targetEmb of
             None \<Rightarrow> Inl TypeError
           | Some t \<Rightarrow> Inr (map (\<lambda>j. jadd (rd t j) (rd avg j)) [0..<d]))"

text \<open>
  \<^verbatim>\<open>new Set(excludeInputs ? [...pairs.flat(), target] : [])\<close>, as far as a vocabulary word
  can be a member: the strings in it.
\<close>

fun flat1 :: "jsval \<Rightarrow> jsval list" where
  "flat1 (JArr xs) = xs"
| "flat1 v = [v]"

fun strings_of :: "jsval list \<Rightarrow> string list" where
  "strings_of [] = []"
| "strings_of (JStr x # vs) = x # strings_of vs"
| "strings_of (_ # vs) = strings_of vs"

definition excludeSet :: "request \<Rightarrow> string set" where
  "excludeSet r =
     (if req_excludeInputs r
      then set (strings_of (concat (map flat1 (req_pairs r))) @ [req_target r])
      else {})"


text \<open>The response. Fields that only one of the two files sends are optional.\<close>

record rpoint =
  rid :: string
  rlabel :: string
  rkind :: kind
  rx :: jsnum
  ry :: jsnum
  rz :: "jsnum option"
  rscore :: "jsnum option"

record seedlink =
  sl_pair :: "nat option"
  sl_fromId :: string
  sl_toId :: string
  sl_labels :: "(string \<times> string) option"
  sl_from :: "(jsnum \<times> jsnum \<times> jsnum) option"
  sl_to :: "(jsnum \<times> jsnum \<times> jsnum) option"

record response =
  avgDelta :: vec
  targetEmbedding :: vec
  transformed :: vec
  transformedRaw :: "vec option"
  neighbors :: "(string \<times> jsnum) list"
  points :: "rpoint list"
  seedLinks :: "seedlink list"
  explainedVariance :: vec
  meta_vocabSize :: nat
  meta_dim_sent :: nat
  meta_model :: string
  meta_k :: int

text \<open>The points both files build for the neighbours, the target and the seeds.\<close>

definition neighborPoints :: "state \<Rightarrow> bool \<Rightarrow> neighbor list \<Rightarrow> ppoint list" where
  "neighborPoints s carry nbrs =
     map (\<lambda>n. \<lparr>pid = ''neighbor:'' @ word n, plabel = word n, pkind = Neighbor,
               pvec = map_option (\<lambda>m. getRow m (dim s) (index n)) (matrix s),
               pscore = (if carry then Some (score n) else None)\<rparr>) nbrs"

definition seedPoints :: "(string \<times> string) list \<Rightarrow> vec list \<Rightarrow> ppoint list" where
  "seedPoints pairObjs embs =
     concat (map (\<lambda>i. [\<lparr>pid = ''seed:'' @ fst (pairObjs ! i), plabel = fst (pairObjs ! i),
                         pkind = SeedFrom, pvec = vec_at embs (2 * i), pscore = None\<rparr>,
                        \<lparr>pid = ''seed:'' @ snd (pairObjs ! i), plabel = snd (pairObjs ! i),
                         pkind = SeedTo, pvec = vec_at embs (2 * i + 1), pscore = None\<rparr>])
               [0..<length pairObjs])"

text \<open>A \<^verbatim>\<open>Map\<close> built from a list of entries keeps the last entry of a key.\<close>

definition map_get :: "('a \<times> 'b) list \<Rightarrow> 'a \<Rightarrow> 'b option" where
  "map_get kvs key = map_of (rev kvs) key"

text \<open>
  The handler of \<^verbatim>\<open>src/server/index.js\<close> from the embeddings on:
  \<^verbatim>\<open>
  const targetEmb = embs[embs.length - 1];
  ... deltas, avgDelta, transformed ...
  const translated = normalized ? normalizeVec(transformed) : transformed;
  const excludeSet = new Set(excludeInputs ? [...pairs.flat(), target] : []);
  const neighbors = topKSimilar(translated, k, excludeSet);
  ... pPoints, seedLinks ...
  const { points, explainedVariance } = makePCA(pPoints);
  ... res.json({ ... })
  \<close>
\<close>

definition seedLinks_server :: "(string \<times> string) list \<Rightarrow> placed list \<Rightarrow> seedlink list" where
  "seedLinks_server pairObjs pts =
     (let pointMap = map_get (map (\<lambda>p. (pid (point p), p)) pts);
          xyz = (\<lambda>key. map_option (\<lambda>p. (px p, py p, or0 (pz p))) (pointMap key))
      in map (\<lambda>i. \<lparr>sl_pair = Some i,
                    sl_fromId = ''seed:'' @ fst (pairObjs ! i),
                    sl_toId = ''seed:'' @ snd (pairObjs ! i),
                    sl_labels = Some (pairObjs ! i),
                    sl_from = xyz (''seed:'' @ fst (pairObjs ! i)),
                    sl_to = xyz (''seed:'' @ snd (pairObjs ! i))\<rparr>)
           [0..<length pairObjs])"

definition respond_server ::
  "env \<Rightarrow> request \<Rightarrow> state \<Rightarrow> (string \<times> string) list \<Rightarrow> vec list \<Rightarrow> error + response" where
  "respond_server e r s pairObjs embs =
     (let targetEmb = last_at embs
      in case deltas_from (dim s) embs [0..<length pairObjs] of
           Inl err \<Rightarrow> Inl err
         | Inr deltas \<Rightarrow>
         (let avg = avgDelta_of (dim s) deltas
          in case transformed_of (dim s) targetEmb avg of
               Inl err \<Rightarrow> Inl err
             | Inr tr \<Rightarrow>
             (let translated = (if normalized s then normalizeVec tr else tr)
              in case topKSimilar s translated (req_k r) (excludeSet r) of
                   Inl err \<Rightarrow> Inl err
                 | Inr nbrs \<Rightarrow>
                 (let pPoints = neighborPoints s False nbrs
                        @ [\<lparr>pid = ''target'', plabel = req_target r, pkind = Target,
                             pvec = targetEmb, pscore = None\<rparr>,
                           \<lparr>pid = ''predicted'', plabel = req_target r @ ''*'', pkind = Predicted,
                             pvec = Some translated, pscore = None\<rparr>]
                        @ (if req_includeSeeds r then seedPoints pairObjs embs else [])
                  in case makePCA_server e pPoints of
                       Inl err \<Rightarrow> Inl err
                     | Inr (pts, ev) \<Rightarrow>
                     (case targetEmb of
                        None \<Rightarrow> Inl TypeError
                      | Some t \<Rightarrow>
                        (let neighborScoreMap =
                               map_get (map (\<lambda>n. (''neighbor:'' @ word n, score n)) nbrs)
                         in Inr \<lparr>avgDelta = avg, targetEmbedding = t, transformed = translated,
                                 transformedRaw = Some tr,
                                 neighbors = map (\<lambda>n. (word n, score n)) nbrs,
                                 points = map (\<lambda>p. \<lparr>rid = pid (point p), rlabel = plabel (point p),
                                                      rkind = pkind (point p), rx = px p, ry = py p,
                                                      rz = Some (or0 (pz p)),
                                                      rscore = (case neighborScoreMap (pid (point p)) of
                                                                  None \<Rightarrow> None
                                                                | Some sc \<Rightarrow>
                                                                    if truthy sc then Some sc
                                                                    else None)\<rparr>) pts,
                                 seedLinks = (if req_includeSeeds r then seedLinks_server pairObjs pts
                                              else []),
                                 explainedVariance = ev,
                                 meta_vocabSize = length (vocab s), meta_dim_sent = dim s,
                                 meta_model = MODEL_ID, meta_k = req_k r\<rparr>))))))"

text \<open>
  The handler of \<^verbatim>\<open>src/unnamed/part_002\<close> from the embeddings on. It checks the count
  first and searches with the raw sum:
  \<^verbatim>\<open>
  if (embs.length !== flatWords.length) {
    throw new Error(`Embedding count mismatch: expected ${flatWords.length}, got ${embs.length}`);
  }
  ... deltas, avgDelta ...
  const targetEmb = embs[embs.length - 1];
  ... transformed ...
  const neighbors = topKSimilar(transformed, k, excludeSet);
  ...
  const transformedForPCA = normalizeVec(transformed);
  \<close>
\<close>

definition respond_part002 ::
  "env \<Rightarrow> request \<Rightarrow> state \<Rightarrow> (string \<times> string) list \<Rightarrow> vec list \<Rightarrow> error + response" where
  "respond_part002 e r s pairObjs embs =
     (if length embs \<noteq> length (flatWords pairObjs (req_target r)) then Inl CountMismatch
      else case deltas_from (dim s) embs [0..<length pairObjs] of
           Inl err \<Rightarrow> Inl err
         | Inr deltas \<Rightarrow>
         (let avg = avgDelta_of (dim s) deltas;
              targetEmb = last_at embs
          in case transformed_of (dim s) targetEmb avg of
               Inl err \<Rightarrow> Inl err
             | Inr tr \<Rightarrow>
             (case topKSimilar s tr (req_k r) (excludeSet r) of
                Inl err \<Rightarrow> Inl err
              | Inr nbrs \<Rightarrow>
                (let pPoints = neighborPoints s True nbrs
                       @ [\<lparr>pid = ''target'', plabel = req_target r, pkind = Target,
                            pvec = targetEmb, pscore = None\<rparr>,
                          \<lparr>pid = ''predicted'', plabel = req_target r @ ''*'', pkind = Predicted,
                            pvec = Some (normalizeVec tr), pscore = None\<rparr>]
                       @ (if req_includeSeeds r then seedPoints pairObjs embs else [])
                 in case makePCA_part002 e pPoints of
                      Inl err \<Rightarrow> Inl err
                    | Inr (pts, ev) \<Rightarrow>
                    (case targetEmb of
                       None \<Rightarrow> Inl TypeError
                     | Some t \<Rightarrow>
                         Inr \<lparr>avgDelta = avg, targetEmbedding = t, transformed = tr,
                              transformedRaw = None,
                              neighbors = map (\<lambda>n. (word n, score n)) nbrs,
                              points = map (\<lambda>p. \<lparr>rid = pid (point p), rlabel = plabel (point p),
                                                   rkind = pkind (point p), rx = px p, ry = py p,
                                                   rz = None,
                                                   rscore = (if pkind (point p) = Neighbor
                                                             then pscore (point p) else None)\<rparr>) pts,
                              seedLinks =
                                (if req_includeSeeds r
                                 then map (\<lambda>(a, b). \<lparr>sl_pair = None, sl_fromId = ''seed:'' @ a,
                                                       sl_toId = ''seed:'' @ b, sl_labels = None,
                                                       sl_from = None, sl_to = None\<rparr>) pairObjs
                                 else []),
                              explainedVariance = ev,
                              meta_vocabSize = length (vocab s), meta_dim_sent = dim s,
                              meta_model = MODEL_ID, meta_k = req_k r\<rparr>)))))"

text \<open>
  \<^verbatim>\<open>
  app.post('/api/search', async (req, res) => {
    try {
      const { pairs, target, k, contextTemplate, includeSeeds, excludeInputs } = req.body || {};
      if (!matrix) await buildOrLoadEmbeddingMatrix(contextTemplate);
      ... pairObjs, flatWords ...
      const texts = wordsToTexts(flatWords, contextTemplate);
      const embs = await embedMany(texts);
      ...
    } catch (e) { res.status(500).json({ error: String(e) }); }
  });
  \<close>
  The result is the response, or the error behind the status 500, and the globals after.
\<close>

definition search ::
  "(env \<Rightarrow> string \<Rightarrow> state \<Rightarrow> (error + unit) \<times> state) \<Rightarrow>
   (env \<Rightarrow> request \<Rightarrow> state \<Rightarrow> (string \<times> string) list \<Rightarrow> vec list \<Rightarrow> error + response) \<Rightarrow>
   env \<Rightarrow> request \<Rightarrow> state \<Rightarrow> (error + response) \<times> state" where
  "search build respond e r s =
     (case (if matrix s = None then build e (req_template r) s else (Inr (), s)) of
        (Inl err, s1) \<Rightarrow> (Inl err, s1)
      | (Inr _, s1) \<Rightarrow>
          (case collectPairs (req_pairs r) of
             Inl err \<Rightarrow> (Inl err, s1)
           | Inr pairObjs \<Rightarrow>
               (case embedMany e (wordsToTexts e (flatWords pairObjs (req_target r)) (req_template r)) s1 of
                  (Inl err, s2) \<Rightarrow> (Inl err, s2)
                | (Inr embs, s2) \<Rightarrow> (respond e r s2 pairObjs embs, s2))))"

definition search_server :: "env \<Rightarrow> request \<Rightarrow> state \<Rightarrow> (error + response) \<times> state" where
  "search_server = search buildOrLoadEmbeddingMatrix_server respond_server"

definition search_part002 :: "env \<Rightarrow> request \<Rightarrow> state \<Rightarrow> (error + response) \<times> state" where
  "search_part002 = search buildOrLoadEmbeddingMatrix_part002 respond_part002"

text \<open>A pair entry the handler keeps, and one it can take apart at all.\<close>

definition wellformed :: "jsval \<Rightarrow> bool" where
  "wellformed p = (case destructure p of Inr (JStr a, JStr b) \<Rightarrow> True | _ \<Rightarrow> False)"

fun iterable :: "jsval \<Rightarrow> bool" where
  "iterable (JArr xs) = True"
| "iterable (JStr cs) = True"
| "iterable _ = False"

section \<open>Notions for the statements\<close>

text \<open>The query a search scores the rows against.\<close>

definition query :: "state \<Rightarrow> vec \<Rightarrow> vec" where
  "query s v = (if normalized s then normalizeVec v else v)"


fun re :: "jsnum \<Rightarrow> real" where
  "re (Fin a) = a"
| "re NaN = 0"

section \<open>The neighbour search with rounding\<close>

text \<open>
  The numbers of the code are IEEE 754 doubles, and a \<^verbatim>\<open>Float32Array\<close> keeps each number
  it is given in single precision. This section repeats \<^verbatim>\<open>normalizeVec\<close>, \<^verbatim>\<open>dot\<close> and
  \<^verbatim>\<open>topKSimilar\<close> with these roundings: every arithmetic operation rounds the exact
  result to 53 significant bits, and so does \<^verbatim>\<open>Math.sqrt\<close> as the engines compute it;
  every store into a \<^verbatim>\<open>Float32Array\<close> rounds to 24; each time to the nearest such number
  and, of two equally near, to the one with an even last bit. The exponent is not bounded here: a result past the largest
  double is not turned into infinity, and one under the smallest normal number keeps its
  full precision. \<open>expo x\<close> is the exponent of \<open>x\<close>, \<open>rne\<close> rounds to the nearest integer,
  \<open>rnd p\<close> to \<open>p\<close> significant bits.
\<close>

definition expo :: "real \<Rightarrow> int" where
  "expo x = \<lfloor>log 2 \<bar>x\<bar>\<rfloor>"

definition rne :: "real \<Rightarrow> int" where
  "rne y =
     (let f = \<lfloor>y\<rfloor>; d = y - of_int f
      in if d < 1 / 2 then f else if 1 / 2 < d then f + 1 else if even f then f else f + 1)"

definition rnd :: "nat \<Rightarrow> real \<Rightarrow> real" where
  "rnd p x =
     (if x = 0 then 0
      else let u = 2 powr of_int (expo x - int p + 1) in of_int (rne (x / u)) * u)"

text \<open>The result of an operation, as a double; a number as a \<^verbatim>\<open>Float32Array\<close> keeps it.\<close>

fun f64 :: "jsnum \<Rightarrow> jsnum" where
  "f64 (Fin a) = Fin (rnd 53 a)"
| "f64 NaN = NaN"

fun f32 :: "jsnum \<Rightarrow> jsnum" where
  "f32 (Fin a) = Fin (rnd 24 a)"
| "f32 NaN = NaN"

text \<open>
  \<^verbatim>\<open>normalizeVec\<close>: \<^verbatim>\<open>s += vec[i] * vec[i]\<close> rounds the product and the sum,
  \<^verbatim>\<open>Math.sqrt(s)\<close> the root, \<^verbatim>\<open>out[i] = vec[i] / norm\<close> the quotient, and the store into
  \<^verbatim>\<open>out\<close> rounds it again, to single precision.
\<close>

definition sumsq_f32 :: "vec \<Rightarrow> jsnum" where
  "sumsq_f32 v = foldl (\<lambda>s x. f64 (jadd s (f64 (jmul x x)))) (Fin 0) v"

definition norm_or_1_f32 :: "vec \<Rightarrow> jsnum" where
  "norm_or_1_f32 v = (let r = f64 (jsqrt (sumsq_f32 v)) in if truthy r then r else Fin 1)"

definition normalizeVec_f32 :: "vec \<Rightarrow> vec" where
  "normalizeVec_f32 v = map (\<lambda>x. f32 (f64 (jdiv x (norm_or_1_f32 v)))) v"

text \<open>\<^verbatim>\<open>dot\<close>: \<^verbatim>\<open>s += a[i] * b[i]\<close> rounds the product and the sum.\<close>

definition dot_f32 :: "vec \<Rightarrow> vec \<Rightarrow> jsnum" where
  "dot_f32 a b = foldl (\<lambda>s i. f64 (jadd s (f64 (jmul (a ! i) (rd b i))))) (Fin 0) [0..<length a]"

text \<open>
  \<^verbatim>\<open>topKSimilar\<close>: \<^verbatim>\<open>sims\<close> is a \<^verbatim>\<open>Float32Array\<close>, so \<^verbatim>\<open>sims[i] = dot(getRow(i), q)\<close>
  rounds each score to single precision; the comparator \<^verbatim>\<open>sims[b] - sims[a]\<close> is a
  subtraction of doubles.
\<close>

definition similarities_f32 :: "state \<Rightarrow> vec \<Rightarrow> vec \<Rightarrow> vec" where
  "similarities_f32 s m q =
     map (\<lambda>i. f32 (dot_f32 (getRow m (dim s) i) q)) [0..<length (vocab s)]"

definition ranked_f32 :: "state \<Rightarrow> vec \<Rightarrow> vec \<Rightarrow> nat list" where
  "ranked_f32 s m q =
     (let sims = similarities_f32 s m q
      in sort_cmp (\<lambda>a b. f64 (jsub (sims ! b) (sims ! a))) [0..<length sims])"

definition topKSimilar_f32 :: "state \<Rightarrow> vec \<Rightarrow> int \<Rightarrow> string set \<Rightarrow> error + neighbor list" where
  "topKSimilar_f32 s targetVec k exclude =
     (let q = (if normalized s then normalizeVec_f32 targetVec else targetVec)
      in case matrix s of
           None \<Rightarrow> (if vocab s = [] then Inr [] else Inl TypeError)
         | Some m \<Rightarrow>
             Inr (walk (vocab s) (similarities_f32 s m q) k exclude (ranked_f32 s m q) []))"

section \<open>Example inputs\<close>

text \<open>
  A provider for the examples: dimension one, the word \<open>a\<close> embedded as \<open>2\<close> and every
  other text as \<open>0\<close>; a PCA that keeps the leading coordinates; a substitution of
  \<^verbatim>\<open>{w}\<close> for words without replacement patterns; a signature that joins its inputs.
\<close>

fun replace_w :: "string \<Rightarrow> string \<Rightarrow> string" where
  "replace_w [] w = []"
| "replace_w (c # cs) w =
     (if c = CHR ''{'' \<and> take 2 cs = ''w}'' then w @ replace_w (drop 2 cs) w
      else c # replace_w cs w)"

definition demo_env :: env where
  "demo_env =
     \<lparr>pipeline_loads = True,
      pipe_test = Some (OutTensor [Fin 1]),
      pipe = (\<lambda>texts. Some (OutArray (map (\<lambda>t. F32 [if t = ''a'' then Fin 2 else Fin 0]) texts))),
      pipe_undefined = None,
      sha256_json = (\<lambda>model d voc tpl. model @ concat voc @ tpl @ replicate d (CHR ''#'')),
      replaceAll = replace_w,
      pca_new = (\<lambda>X. True),
      pca_predict = (\<lambda>X n. Some (map (take n) X)),
      pca_explained = (\<lambda>X. Some [Fin 1]),
      bin_write_ok = True,
      meta_write_ok = True\<rparr>"

text \<open>
  The globals at the start of the process, with a vocabulary file of the two lines \<open>a\<close>
  and \<open>b\<close> and no cache, the state once the vocabulary and the model are loaded, and the
  state the first build leaves.
\<close>

definition demo_boot :: state where
  "demo_boot =
     \<lparr>embedder = False, vocab = [], dim = 0, matrix = None, normalized = False,
      disk = \<lparr>vocab_file = Some (Holds [CHR ''a'', CHR 0x0A, CHR ''b'']), meta_file = None,
               bin_file = None\<rparr>\<rparr>"

definition demo_loaded :: state where
  "demo_loaded =
     \<lparr>embedder = True, vocab = [''a'', ''b''], dim = 1, matrix = None, normalized = False,
      disk = \<lparr>vocab_file = Some (Holds [CHR ''a'', CHR 0x0A, CHR ''b'']), meta_file = None,
               bin_file = None\<rparr>\<rparr>"

definition demo_signature :: string where
  "demo_signature = hashJSON demo_env 1 [''a'', ''b''] ''{w}''"

definition demo_state :: state where
  "demo_state =
     \<lparr>embedder = True, vocab = [''a'', ''b''], dim = 1, matrix = Some [Fin 1, Fin 0],
      normalized = True,
      disk = \<lparr>vocab_file = Some (Holds [CHR ''a'', CHR 0x0A, CHR ''b'']),
               meta_file = Some (Holds (Meta \<lparr>meta_n = 2, meta_dim = 1,
                                               meta_normalized = True,
                                               meta_signature = demo_signature\<rparr>)),
               bin_file = Some (Holds [Fin 1, Fin 0])\<rparr>\<rparr>"

text \<open>
  Requests for the examples: one without pairs, one with a pair the handler keeps and one it
  drops, one whose only pair entry is \<^verbatim>\<open>null\<close> (the body
  \<^verbatim>\<open>{"pairs": [null], "target": "a", "k": 1, "excludeInputs": false}\<close>), and one with
  another context template. A PCA library that throws, and a provider
  that returns two vectors whatever it is asked.
\<close>

definition demo_request0 :: request where
  "demo_request0 =
     \<lparr>req_pairs = [], req_target = ''a'', req_k = 1, req_template = ''{w}'',
      req_includeSeeds = True, req_excludeInputs = False\<rparr>"

definition demo_request :: request where
  "demo_request =
     \<lparr>req_pairs = [JArr [JStr ''b'', JStr ''a''], JArr [JNum 1, JNull]], req_target = ''a'',
      req_k = 1, req_template = ''{w}'', req_includeSeeds = True, req_excludeInputs = False\<rparr>"

definition demo_request_null :: request where
  "demo_request_null = demo_request0\<lparr>req_pairs := [JNull]\<rparr>"

definition demo_request_b :: request where
  "demo_request_b = demo_request0\<lparr>req_target := ''b''\<rparr>"

definition demo_request_tpl :: request where
  "demo_request_tpl = demo_request0\<lparr>req_template := ''I saw {w}''\<rparr>"

definition demo_env_pca_throws :: env where
  "demo_env_pca_throws = demo_env\<lparr>pca_new := (\<lambda>X. False)\<rparr>"

definition demo_env_two_vectors :: env where
  "demo_env_two_vectors = demo_env\<lparr>pipe := (\<lambda>texts. Some (OutArray [F32 [Fin 0], F32 [Fin 2]]))\<rparr>"

text \<open>
  The answers of the two files to the request without pairs, and of the second file to the
  request with pairs.
\<close>

definition demo_response_server :: response where
  "demo_response_server =
     \<lparr>avgDelta = [Fin 0], targetEmbedding = [Fin 2], transformed = [Fin 1],
      transformedRaw = Some [Fin 2], neighbors = [(''a'', Fin 1)],
      points =
        [\<lparr>rid = ''neighbor:a'', rlabel = ''a'', rkind = Neighbor, rx = Fin 1, ry = Fin 0,
           rz = Some (Fin 0), rscore = Some (Fin 1)\<rparr>,
         \<lparr>rid = ''target'', rlabel = ''a'', rkind = Target, rx = Fin 2, ry = Fin 0,
           rz = Some (Fin 0), rscore = None\<rparr>,
         \<lparr>rid = ''predicted'', rlabel = ''a*'', rkind = Predicted, rx = Fin 1, ry = Fin 0,
           rz = Some (Fin 0), rscore = None\<rparr>],
      seedLinks = [], explainedVariance = [Fin 1], meta_vocabSize = 2, meta_dim_sent = 1,
      meta_model = MODEL_ID, meta_k = 1\<rparr>"

definition demo_response_part002 :: response where
  "demo_response_part002 =
     \<lparr>avgDelta = [Fin 0], targetEmbedding = [Fin 2], transformed = [Fin 2],
      transformedRaw = None, neighbors = [(''a'', Fin 1)],
      points =
        [\<lparr>rid = ''neighbor:a'', rlabel = ''a'', rkind = Neighbor, rx = Fin 1, ry = Fin 0,
           rz = None, rscore = Some (Fin 1)\<rparr>,
         \<lparr>rid = ''target'', rlabel = ''a'', rkind = Target, rx = Fin 2, ry = Fin 0,
           rz = None, rscore = None\<rparr>,
         \<lparr>rid = ''predicted'', rlabel = ''a*'', rkind = Predicted, rx = Fin 1, ry = Fin 0,
           rz = None, rscore = None\<rparr>],
      seedLinks = [], explainedVariance = [Fin 1, Fin 0, Fin 0], meta_vocabSize = 2,
      meta_dim_sent = 1, meta_model = MODEL_ID, meta_k = 1\<rparr>"

definition demo_response_pairs :: response where
  "demo_response_pairs =
     \<lparr>avgDelta = [Fin 2], targetEmbedding = [Fin 2], transformed = [Fin 4],
      transformedRaw = None, neighbors = [(''a'', Fin 1)],
      points =
        [\<lparr>rid = ''neighbor:a'', rlabel = ''a'', rkind = Neighbor, rx = Fin 1, ry = Fin 0,
           rz = None, rscore = Some (Fin 1)\<rparr>,
         \<lparr>rid = ''target'', rlabel = ''a'', rkind = Target, rx = Fin 2, ry = Fin 0,
           rz = None, rscore = None\<rparr>,
         \<lparr>rid = ''predicted'', rlabel = ''a*'', rkind = Predicted, rx = Fin 1, ry = Fin 0,
           rz = None, rscore = None\<rparr>,
         \<lparr>rid = ''seed:b'', rlabel = ''b'', rkind = SeedFrom, rx = Fin 0, ry = Fin 0,
           rz = None, rscore = None\<rparr>,
         \<lparr>rid = ''seed:a'', rlabel = ''a'', rkind = SeedTo, rx = Fin 2, ry = Fin 0,
           rz = None, rscore = None\<rparr>],
      seedLinks =
        [\<lparr>sl_pair = None, sl_fromId = ''seed:b'', sl_toId = ''seed:a'', sl_labels = None,
           sl_from = None, sl_to = None\<rparr>],
      explainedVariance = [Fin 1, Fin 0, Fin 0], meta_vocabSize = 2, meta_dim_sent = 1,
      meta_model = MODEL_ID, meta_k = 1\<rparr>"

text \<open>
  The globals at the start of the process over a cache directory with the metadata file
  \<open>mf\<close> and the blob file \<open>bf\<close>, the globals once the vocabulary is loaded, and once
  the model is.
\<close>

definition demo_cache :: "meta_json stored option \<Rightarrow> vec stored option \<Rightarrow> state" where
  "demo_cache mf bf =
     demo_boot\<lparr>disk := \<lparr>vocab_file = Some (Holds [CHR ''a'', CHR 0x0A, CHR ''b'']),
                          meta_file = mf, bin_file = bf\<rparr>\<rparr>"

definition demo_cache_vocab :: "meta_json stored option \<Rightarrow> vec stored option \<Rightarrow> state" where
  "demo_cache_vocab mf bf = demo_cache mf bf\<lparr>vocab := [''a'', ''b'']\<rparr>"

definition demo_cache_loaded :: "meta_json stored option \<Rightarrow> vec stored option \<Rightarrow> state" where
  "demo_cache_loaded mf bf = demo_cache_vocab mf bf\<lparr>embedder := True, dim := 1\<rparr>"

text \<open>
  A cache whose signature is the current one while its metadata announces five rows of
  three numbers over a blob of one number; the globals after the vocabulary and the model
  are loaded, and after the blob is adopted. Metadata with another signature. A cache whose
  metadata does not parse, and one whose metadata is the text \<^verbatim>\<open>null\<close>. A vocabulary file
  that cannot be read, and a provider whose model does not load.
\<close>

definition demo_stale_meta :: cache_meta where
  "demo_stale_meta =
     \<lparr>meta_n = 5, meta_dim = 3, meta_normalized = True, meta_signature = demo_signature\<rparr>"

definition demo_old_meta :: cache_meta where
  "demo_old_meta = \<lparr>meta_n = 2, meta_dim = 1, meta_normalized = True, meta_signature = ''old''\<rparr>"

definition demo_stale :: state where
  "demo_stale = demo_cache (Some (Holds (Meta demo_stale_meta))) (Some (Holds [Fin 1]))"

definition demo_stale_loaded :: state where
  "demo_stale_loaded = demo_cache_loaded (Some (Holds (Meta demo_stale_meta))) (Some (Holds [Fin 1]))"

definition demo_adopted :: state where
  "demo_adopted = demo_stale_loaded\<lparr>matrix := Some [Fin 1], dim := 3, normalized := True\<rparr>"

definition demo_unparsable :: state where
  "demo_unparsable = demo_cache (Some (Holds BadJSON)) (Some (Holds [Fin 1]))"

definition demo_unparsable_loaded :: state where
  "demo_unparsable_loaded = demo_cache_loaded (Some (Holds BadJSON)) (Some (Holds [Fin 1]))"

definition demo_null_meta :: state where
  "demo_null_meta = demo_cache (Some (Holds NullJSON)) (Some (Holds [Fin 1]))"

definition demo_null_meta_loaded :: state where
  "demo_null_meta_loaded = demo_cache_loaded (Some (Holds NullJSON)) (Some (Holds [Fin 1]))"

definition demo_no_vocab :: state where
  "demo_no_vocab =
     demo_boot\<lparr>disk := \<lparr>vocab_file = Some Unreadable, meta_file = None, bin_file = None\<rparr>\<rparr>"

definition demo_env_no_model :: env where
  "demo_env_no_model = demo_env\<lparr>pipeline_loads := False\<rparr>"

text \<open>
  Numbers of single precision for the examples with rounding: \<open>22 / \<surd>1325\<close> and
  \<open>29 / \<surd>1325\<close> as \<^verbatim>\<open>normalizeVec\<close> stores them, the neighbour of the latter one unit in
  the last place below, \<open>3 / 5\<close> and \<open>4 / 5\<close> as stored, and two scores. The globals with a
  normalised matrix of two rows of dimension two, which are \<open>(-29, 22)\<close> and \<open>(29, -22)\<close>
  normalised by \<^verbatim>\<open>normalizeVec\<close>.
\<close>

definition c22 :: real where
  "c22 = 10139923 / 2 ^ 24"

definition c29 :: real where
  "c29 = 6683131 / 2 ^ 23"

definition c29_again :: real where
  "c29_again = 13366261 / 2 ^ 24"

definition gap :: real where
  "gap = 10139923 / 2 ^ 48"

definition c06 :: real where
  "c06 = 5033165 / 2 ^ 23"

definition c08 :: real where
  "c08 = 13421773 / 2 ^ 24"

definition score_3_4 :: real where
  "score_3_4 = 92181 / 2 ^ 24"

definition demo_rounded :: state where
  "demo_rounded =
     \<lparr>embedder = True, vocab = [''a'', ''b''], dim = 2,
      matrix = Some [Fin (- c29), Fin c22, Fin c29, Fin (- c22)], normalized = True,
      disk = \<lparr>vocab_file = None, meta_file = None, bin_file = None\<rparr>\<rparr>"

section \<open>Properties of the neighbour search\<close>

subsection \<open>The walk over the ranked rows\<close>

lemma walk_closed_gen:
  "int (length res) < max 1 k \<Longrightarrow>
   walk voc sims k ex idxs res =
     res @ map (entry voc sims) (take (nat (max 1 k) - length res) (filter (\<lambda>i. voc ! i \<notin> ex) idxs))"
proof (induction idxs arbitrary: res)
  case Nil
  then show ?case by simp
next
  case (Cons i idxs)
  show ?case
  proof (cases "voc ! i \<in> ex")
    case True
    then show ?thesis using Cons by simp
  next
    case False
    let ?res' = "res @ [entry voc sims i]"
    show ?thesis
    proof (cases "k \<le> int (length ?res')")
      case True
      with Cons.prems have "nat (max 1 k) - length res = 1" by auto
      with True False show ?thesis by (simp add: entry_def Let_def)
    next
      case F: False
      then have lt: "int (length ?res') < max 1 k" by simp
      have "nat (max 1 k) - length res = Suc (nat (max 1 k) - length ?res')"
        using F by auto
      with Cons.IH[OF lt] False F show ?thesis by (simp add: entry_def Let_def)
    qed
  qed
qed

lemma walk_closed:
  "walk voc sims k ex idxs [] =
     map (entry voc sims) (take (nat (max 1 k)) (filter (\<lambda>i. voc ! i \<notin> ex) idxs))"
  using walk_closed_gen[of "[]" k voc sims ex idxs] by simp

subsection \<open>The sort\<close>

lemma set_insort_cmp: "set (insort_cmp c x ys) = insert x (set ys)"
  by (induction ys) auto

lemma mset_insort_cmp: "mset (insort_cmp c x ys) = add_mset x (mset ys)"
  by (induction ys) auto

lemma mset_sort_cmp: "mset (sort_cmp c xs) = mset xs"
  by (induction xs) (auto simp: sort_cmp_def mset_insort_cmp)

lemma set_sort_cmp: "set (sort_cmp c xs) = set xs"
  using mset_sort_cmp[of c xs] by (metis set_mset_mset)

lemma sorted_insort_cmp:
  assumes tot: "\<And>a b. a \<in> A \<Longrightarrow> b \<in> A \<Longrightarrow> positive (c a b) \<Longrightarrow> \<not> positive (c b a)"
    and tr: "\<And>a b d. a \<in> A \<Longrightarrow> b \<in> A \<Longrightarrow> d \<in> A \<Longrightarrow>
               \<not> positive (c a b) \<Longrightarrow> \<not> positive (c b d) \<Longrightarrow> \<not> positive (c a d)"
  shows "x \<in> A \<Longrightarrow> set ys \<subseteq> A \<Longrightarrow> sorted_wrt (\<lambda>a b. \<not> positive (c a b)) ys \<Longrightarrow>
         sorted_wrt (\<lambda>a b. \<not> positive (c a b)) (insort_cmp c x ys)"
proof (induction ys)
  case Nil
  then show ?case by simp
next
  case (Cons y ys)
  show ?case
  proof (cases "positive (c x y)")
    case True
    then have "\<not> positive (c y x)" using tot Cons.prems by simp
    with Cons True show ?thesis by (auto simp: set_insort_cmp)
  next
    case False
    have "\<not> positive (c x z)" if "z \<in> set ys" for z
      using tr[of x y z] False Cons.prems that by auto
    with Cons False show ?thesis by auto
  qed
qed

lemma sorted_sort_cmp:
  assumes tot: "\<And>a b. a \<in> A \<Longrightarrow> b \<in> A \<Longrightarrow> positive (c a b) \<Longrightarrow> \<not> positive (c b a)"
    and tr: "\<And>a b d. a \<in> A \<Longrightarrow> b \<in> A \<Longrightarrow> d \<in> A \<Longrightarrow>
               \<not> positive (c a b) \<Longrightarrow> \<not> positive (c b d) \<Longrightarrow> \<not> positive (c a d)"
  shows "set xs \<subseteq> A \<Longrightarrow> sorted_wrt (\<lambda>a b. \<not> positive (c a b)) (sort_cmp c xs)"
proof (induction xs)
  case Nil
  then show ?case by (simp add: sort_cmp_def)
next
  case (Cons x xs)
  have "set (sort_cmp c xs) \<subseteq> A" using Cons.prems by (simp add: set_sort_cmp)
  with Cons sorted_insort_cmp[of A c x "sort_cmp c xs", OF tot tr] show ?case
    by (simp add: sort_cmp_def)
qed

lemma length_similarities [simp]: "length (similarities s m q) = length (vocab s)"
  by (simp add: similarities_def)

lemma mset_ranked: "mset (ranked s m q) = mset [0..<length (vocab s)]"
  by (simp add: ranked_def Let_def mset_sort_cmp)

lemma set_ranked: "set (ranked s m q) = {0..<length (vocab s)}"
  using mset_ranked[of s m q] by (metis set_mset_mset set_upt)

lemma positive_jsub:
  "a \<noteq> NaN \<Longrightarrow> b \<noteq> NaN \<Longrightarrow> positive (jsub b a) \<longleftrightarrow> \<not> jge a b"
  by (cases a; cases b) auto

lemma sorted_ranked:
  assumes "NaN \<notin> set (similarities s m q)"
  shows "sorted_wrt (\<lambda>a b. jge (similarities s m q ! a) (similarities s m q ! b)) (ranked s m q)"
proof -
  let ?sims = "similarities s m q"
  let ?c = "\<lambda>a b. jsub (?sims ! b) (?sims ! a)"
  let ?A = "{0..<length ?sims}"
  have fin: "?sims ! a \<noteq> NaN" if "a \<in> ?A" for a
    using assms that by (metis atLeastLessThan_iff nth_mem)
  have pos: "positive (?c a b) \<longleftrightarrow> \<not> jge (?sims ! a) (?sims ! b)" if "a \<in> ?A" "b \<in> ?A" for a b
    using positive_jsub fin that by blast
  have jge_total: "jge x y \<or> jge y x" if "x \<noteq> NaN" "y \<noteq> NaN" for x y
    using that by (cases x; cases y) auto
  have jge_trans: "jge x y \<Longrightarrow> jge y z \<Longrightarrow> jge x z" for x y z
    by (cases x; cases y; cases z) auto
  have srt: "sorted_wrt (\<lambda>a b. \<not> positive (?c a b)) (sort_cmp ?c [0..<length ?sims])"
  proof (rule sorted_sort_cmp[where A = ?A])
    fix a b assume "a \<in> ?A" "b \<in> ?A" "positive (?c a b)"
    then show "\<not> positive (?c b a)" using pos jge_total fin by blast
  next
    fix a b d assume "a \<in> ?A" "b \<in> ?A" "d \<in> ?A"
      "\<not> positive (?c a b)" "\<not> positive (?c b d)"
    then show "\<not> positive (?c a d)" using pos jge_trans by blast
  qed simp
  have "set (sort_cmp ?c [0..<length ?sims]) = ?A" by (simp add: set_sort_cmp)
  then have "sorted_wrt (\<lambda>a b. jge (?sims ! a) (?sims ! b)) (sort_cmp ?c [0..<length ?sims])"
    using sorted_wrt_mono_rel[OF _ srt, of "\<lambda>a b. jge (?sims ! a) (?sims ! b)"] pos by blast
  then show ?thesis by (simp add: ranked_def Let_def)
qed

subsection \<open>The result of a search, in closed form\<close>

lemma topKSimilar_closed:
  assumes "matrix s = Some m"
  shows "topKSimilar s v k ex =
    Inr (map (entry (vocab s) (similarities s m (query s v)))
          (take (nat (max 1 k)) (filter (\<lambda>i. vocab s ! i \<notin> ex) (ranked s m (query s v)))))"
  using assms by (simp add: topKSimilar_def Let_def walk_closed query_def)

lemma length_filter_ranked:
  "length (filter P (ranked s m q)) = length (filter P [0..<length (vocab s)])"
proof -
  have "mset (filter P (ranked s m q)) = mset (filter P [0..<length (vocab s)])"
    by (simp add: mset_ranked)
  then show ?thesis by (metis size_mset)
qed

lemma length_available:
  assumes "distinct (vocab s)"
  shows "length (available s ex) = length (vocab s) - card (ex \<inter> set (vocab s))"
proof -
  let ?n = "length (vocab s)"
  let ?bad = "{i. i < ?n \<and> vocab s ! i \<in> ex}"
  have "{i. i < length [0..<?n] \<and> vocab s ! ([0..<?n] ! i) \<notin> ex}
          = {i. i < ?n \<and> vocab s ! i \<notin> ex}" by auto
  then have "length (available s ex) = card {i. i < ?n \<and> vocab s ! i \<notin> ex}"
    by (simp add: available_def length_filter_conv_card)
  also have "{i. i < ?n \<and> vocab s ! i \<notin> ex} = {0..<?n} - ?bad" by auto
  also have "card ({0..<?n} - ?bad) = ?n - card ?bad"
    by (subst card_Diff_subset) auto
  also have "card ?bad = card (ex \<inter> set (vocab s))"
  proof (rule bij_betw_same_card[of "\<lambda>i. vocab s ! i"])
    show "bij_betw (\<lambda>i. vocab s ! i) ?bad (ex \<inter> set (vocab s))"
      unfolding bij_betw_def
    proof
      show "inj_on (\<lambda>i. vocab s ! i) ?bad"
        using assms by (auto simp: inj_on_def nth_eq_iff_index_eq)
      show "(\<lambda>i. vocab s ! i) ` ?bad = ex \<inter> set (vocab s)"
        by (auto simp: in_set_conv_nth)
    qed
  qed
  finally show ?thesis .
qed

text \<open>
  C1 (as amended). With a matrix in memory \<^verbatim>\<open>topKSimilar\<close> returns a list, never an
  error, for every query vector and every exclusion set. For \<open>k \<ge> 1\<close> the list has
  exactly \<open>min k m\<close> entries, \<open>m\<close> being the number of vocabulary rows whose word is
  not excluded, so a \<open>k\<close> beyond \<open>m\<close> returns all \<open>m\<close> of them. On a duplicate-free
  vocabulary \<open>m\<close> is the vocabulary size minus the number of excluded words that are in the
  vocabulary; excluded words outside the vocabulary do not lower it.
\<close>

theorem topK_count:
  assumes "matrix s \<noteq> None" and "1 \<le> k"
  shows "\<exists>res. topKSimilar s v k ex = Inr res
           \<and> length res = min (nat k) (length (available s ex))
           \<and> (distinct (vocab s) \<longrightarrow>
                length (available s ex) = length (vocab s) - card (ex \<inter> set (vocab s)))"
proof -
  from assms obtain m where m: "matrix s = Some m" by auto
  have "max 1 k = k" using assms by simp
  then show ?thesis
    using topKSimilar_closed[OF m, of v k ex] length_available[of s ex]
    by (simp add: length_filter_ranked available_def)
qed

lemma demo_sims: "similarities demo_state [Fin 1, Fin 0] [Fin 1] = [Fin 1, Fin 0]"
  by (simp add: similarities_def demo_state_def dot_def getRow_def rd_def upt_rec)

lemma demo_query: "normalizeVec [Fin 1] = [Fin 1]"
  by (simp add: normalizeVec_def norm_or_1_def sumsq_def)

lemma demo_fields:
  "matrix demo_state = Some [Fin 1, Fin 0]" "vocab demo_state = [''a'', ''b'']"
  "normalized demo_state" "dim demo_state = 1" "embedder demo_state"
  by (simp_all add: demo_state_def)

lemma demo_ranked: "ranked demo_state [Fin 1, Fin 0] [Fin 1] = [0, 1]"
  by (simp add: ranked_def demo_sims sort_cmp_def upt_rec)

lemma demo_topK:
  "topKSimilar demo_state [Fin 1] k ex =
     Inr (walk [''a'', ''b''] [Fin 1, Fin 0] k ex [0, 1] [])"
  by (simp add: topKSimilar_def demo_query demo_fields demo_ranked demo_sims)

text \<open>
  C1 as stated fails: with the vocabulary \<open>a, b\<close>, the exclusion set \<open>{c}\<close> and
  \<open>k = 5\<close> the search returns both words, more than the vocabulary size minus the size of
  the exclusion set.
\<close>

theorem topK_bound_counterexample:
  "topKSimilar demo_state [Fin 1] 5 {''c''} =
     Inr [\<lparr>word = ''a'', score = Fin 1, index = 0\<rparr>, \<lparr>word = ''b'', score = Fin 0, index = 1\<rparr>]
   \<and> \<not> (2 \<le> length (vocab demo_state) - card {''c''})"
  by (simp add: demo_topK demo_fields)

text \<open>
  C2 at \<open>k = 0\<close>: the walk pushes a row before it compares the length with \<open>k\<close>, so
  the search returns one neighbour where the claim allows none.
\<close>

theorem topK_zero_returns_one:
  "topKSimilar demo_state [Fin 1] 0 {} = Inr [\<lparr>word = ''a'', score = Fin 1, index = 0\<rparr>]
   \<and> \<not> int (length [\<lparr>word = ''a'', score = Fin 1, index = 0\<rparr>]) \<le> 0"
  by (simp add: demo_topK)

theorem topK_count_witness:
  "matrix demo_state \<noteq> None \<and> (1::int) \<le> 5 \<and> distinct (vocab demo_state) \<and>
   (\<exists>res. topKSimilar demo_state [Fin 1] 5 {''c''} = Inr res
           \<and> length res = min (nat 5) (length (available demo_state {''c''})))
   \<and> length (available demo_state {''c''})
       = length (vocab demo_state) - card ({''c''} \<inter> set (vocab demo_state))"
proof -
  have h: "matrix demo_state \<noteq> None" by (simp add: demo_fields)
  have d: "distinct (vocab demo_state)" by (simp add: demo_fields)
  show ?thesis using h d topK_count[OF h, of 5 "[Fin 1]" "{''c''}"] by auto
qed

text \<open>
  What holds of every result: no excluded word, rows of the vocabulary with their own score,
  no row twice, at most \<open>k\<close> entries once \<open>k \<ge> 1\<close> (and never more than one beyond
  that), and scores in non-increasing order when none of them is \<^verbatim>\<open>NaN\<close>.
\<close>

lemma topK_contract:
  assumes "matrix s = Some m" and "topKSimilar s v k ex = Inr res"
  shows "\<forall>n\<in>set res. word n \<notin> ex \<and> index n < length (vocab s)
                        \<and> word n = vocab s ! index n
                        \<and> score n = similarities s m (query s v) ! index n"
    and "1 \<le> k \<longrightarrow> int (length res) \<le> k"
    and "length res \<le> 1 \<or> int (length res) \<le> k"
    and "distinct (map index res)"
    and "NaN \<notin> set (similarities s m (query s v)) \<longrightarrow>
         sorted_wrt (\<lambda>a b. jge (score a) (score b)) res"
proof -
  let ?sims = "similarities s m (query s v)"
  let ?ok = "\<lambda>i. vocab s ! i \<notin> ex"
  let ?rows = "take (nat (max 1 k)) (filter ?ok (ranked s m (query s v)))"
  have res: "res = map (entry (vocab s) ?sims) ?rows"
    using topKSimilar_closed[OF assms(1), of v k ex] assms(2) by simp
  have rows: "set ?rows \<subseteq> {i. i < length (vocab s) \<and> ?ok i}"
    using set_ranked[of s m "query s v"] by (auto dest: in_set_takeD)
  show "\<forall>n\<in>set res. word n \<notin> ex \<and> index n < length (vocab s)
                        \<and> word n = vocab s ! index n \<and> score n = ?sims ! index n"
    using rows by (auto simp: res entry_def)
  show "1 \<le> k \<longrightarrow> int (length res) \<le> k" by (auto simp: res)
  show "length res \<le> 1 \<or> int (length res) \<le> k" by (auto simp: res)
  have "distinct (ranked s m (query s v))"
    using mset_ranked[of s m "query s v"] by (metis distinct_upt mset_eq_imp_distinct_iff)
  then have "distinct ?rows" by (simp add: distinct_take)
  moreover have "map index res = ?rows" by (simp add: res entry_def comp_def)
  ultimately show "distinct (map index res)" by simp
  show "NaN \<notin> set ?sims \<longrightarrow> sorted_wrt (\<lambda>a b. jge (score a) (score b)) res"
  proof
    assume "NaN \<notin> set ?sims"
    from sorted_ranked[OF this]
    have "sorted_wrt (\<lambda>a b. jge (?sims ! a) (?sims ! b)) ?rows"
      by (intro sorted_wrt_take sorted_wrt_filter)
    then show "sorted_wrt (\<lambda>a b. jge (score a) (score b)) res"
      by (simp add: res sorted_wrt_map entry_def)
  qed
qed

text \<open>With \<open>k \<le> 0\<close> and a row left to return, the result has exactly one entry.\<close>

lemma topK_nonpositive_k:
  assumes "matrix s = Some m" and "k \<le> 0" and "available s ex \<noteq> []"
  shows "\<exists>n. topKSimilar s v k ex = Inr [n]"
proof -
  let ?rows = "filter (\<lambda>i. vocab s ! i \<notin> ex) (ranked s m (query s v))"
  have "length ?rows = length (available s ex)"
    by (simp add: length_filter_ranked available_def)
  with assms(3) obtain i rest where r: "?rows = i # rest" by (cases ?rows) auto
  have "nat (max 1 k) = 1" using assms(2) by simp
  with r topKSimilar_closed[OF assms(1), of v k ex] show ?thesis by simp
qed

section \<open>Properties of the normalisation\<close>

lemma foldl_sq_NaN: "foldl (\<lambda>s x. jadd s (jmul x x)) NaN v = NaN"
  by (induction v) auto

lemma foldl_sq:
  "foldl (\<lambda>s x. jadd s (jmul x x)) (Fin a) v =
     (if NaN \<in> set v then NaN else Fin (a + (\<Sum>x\<leftarrow>v. re x * re x)))"
proof (induction v arbitrary: a)
  case Nil
  then show ?case by simp
next
  case (Cons x v)
  show ?case
  proof (cases x)
    case (Fin b)
    then show ?thesis using Cons[of "a + b * b"] by (simp add: add.assoc)
  next
    case NaN
    then show ?thesis by (simp add: foldl_sq_NaN)
  qed
qed

lemma sumsq_eq:
  "sumsq v = (if NaN \<in> set v then NaN else Fin (\<Sum>x\<leftarrow>v. re x * re x))"
  by (simp add: sumsq_def foldl_sq)



lemma jdiv_one [simp]: "jdiv x (Fin 1) = x"
  by (cases x) auto

lemma norm_or_1_cases:
  "norm_or_1 v = Fin 1 \<or> (\<exists>a. 0 < a \<and> sumsq v = Fin a \<and> norm_or_1 v = Fin (sqrt a))"
proof (cases "sumsq v")
  case (Fin a)
  then show ?thesis
    by (cases "a < 0"; cases "a = 0") (auto simp: norm_or_1_def Let_def)
next
  case NaN
  then show ?thesis by (simp add: norm_or_1_def)
qed


lemma normalizeVec_unchanged: "norm_or_1 v = Fin 1 \<Longrightarrow> normalizeVec v = v"
  by (simp add: normalizeVec_def)

lemma length_normalizeVec [simp]: "length (normalizeVec v) = length v"
  by (simp add: normalizeVec_def)




lemma sumsq_normalizeVec_pos:
  assumes "sumsq v = Fin a" "0 < a"
  shows "sumsq (normalizeVec v) = Fin 1"
proof -
  from assms have nn: "NaN \<notin> set v" and a: "a = (\<Sum>x\<leftarrow>v. re x * re x)"
    by (auto simp: sumsq_eq split: if_splits)
  have n: "norm_or_1 v = Fin (sqrt a)"
    using assms by (simp add: norm_or_1_def)
  have sq: "sqrt a \<noteq> 0" using assms by simp
  have each: "jdiv x (Fin (sqrt a)) = Fin (re x / sqrt a)" if "x \<in> set v" for x
  proof (cases x)
    case (Fin b)
    then show ?thesis using sq by simp
  next
    case NaN
    with that nn show ?thesis by simp
  qed
  then have nv: "normalizeVec v = map (\<lambda>x. Fin (re x / sqrt a)) v"
    by (simp add: normalizeVec_def n)
  have each_sq: "(re x / sqrt a) * (re x / sqrt a) = (re x * re x) / a" for x
    using assms(2) by (simp add: field_simps)
  have "(\<Sum>x\<leftarrow>v. (re x / sqrt a) * (re x / sqrt a)) = (\<Sum>x\<leftarrow>v. re x * re x / a)"
    by (simp only: each_sq)
  also have "\<dots> = (\<Sum>x\<leftarrow>v. re x * re x) / a"
    by (induction v) (simp_all add: add_divide_distrib)
  finally have "(\<Sum>x\<leftarrow>v. (re x / sqrt a) * (re x / sqrt a)) = (\<Sum>x\<leftarrow>v. re x * re x) / a" .
  then have "(\<Sum>x\<leftarrow>v. (re x / sqrt a) * (re x / sqrt a)) = 1"
    using a assms(2) by simp
  then show ?thesis by (simp add: sumsq_eq nv comp_def image_iff)
qed

lemma normalizeVec_idem: "normalizeVec (normalizeVec v) = normalizeVec v"
proof -
  consider "norm_or_1 v = Fin 1" | a where "0 < a" "sumsq v = Fin a"
    using norm_or_1_cases[of v] by blast
  then show ?thesis
  proof cases
    case 1
    then show ?thesis by (simp add: normalizeVec_unchanged)
  next
    case 2
    then have "sumsq (normalizeVec v) = Fin 1" by (simp add: sumsq_normalizeVec_pos)
    then have "norm_or_1 (normalizeVec v) = Fin 1" by (simp add: norm_or_1_def)
    then show ?thesis by (rule normalizeVec_unchanged)
  qed
qed


text \<open>
  In exact arithmetic it makes no difference whether \<^verbatim>\<open>topKSimilar\<close> is given a vector
  normalised beforehand or the raw one, since it normalises its query itself and there
  normalising twice is normalising once. With the roundings of the code this is not so;
  the last sections take them into account.
\<close>

lemma exact_conventions_agree:
  "topKSimilar s (if normalized s then normalizeVec t else t) k ex = topKSimilar s t k ex"
  by (simp add: topKSimilar_def normalizeVec_idem)

section \<open>Properties of the rebuild\<close>















lemma demo_loadVocab: "vocab (snd (loadVocab demo_boot)) = [''a'', ''b'']"
  by (simp add: loadVocab_def demo_boot_def trim_def is_space_def dedupe_def)

lemma demo_texts: "wordsToTexts demo_env ws ''{w}'' = ws"
  by (simp add: wordsToTexts_def demo_env_def)

lemma demo_embedMany:
  "embedder s \<Longrightarrow> embedMany demo_env texts s =
     (Inr (map (\<lambda>t. [if t = ''a'' then Fin 2 else Fin 0]) texts), s)"
  by (auto simp: embedMany_def embed_out_def ensureEmbedder_def demo_env_def decode_def Let_def comp_def)

lemma demo_normalize2: "normalizeVec [Fin 2] = [Fin 1]" "normalizeVec [Fin 0] = [Fin 0]"
  by (simp_all add: normalizeVec_def norm_or_1_def sumsq_def)


lemma demo_rebuild:
  "rebuild_server demo_env ''{w}'' demo_signature demo_loaded = (Inr (), demo_state)"
  "rebuild_part002 demo_env ''{w}'' demo_signature demo_loaded = (Inr (), demo_state)"
  by (simp_all add: demo_loaded_def
      rebuild_server_def rebuild_part002_def probe_dim_def demo_texts
      fillBatches.simps demo_embedMany BATCH_SIZE_def set_at_def finishBuild_def getRow_def
      demo_normalize2 demo_state_def Let_def upt_rec
      demo_env_def[THEN arg_cong[of _ _ bin_write_ok]]
      demo_env_def[THEN arg_cong[of _ _ meta_write_ok]])



text \<open>
  C4 (as amended). \<^verbatim>\<open>buildOrLoadEmbeddingMatrix\<close> (in both files) ends with the error of
  \<^verbatim>\<open>loadVocab\<close> or of \<^verbatim>\<open>ensureEmbedder\<close> when one of them fails. Once the vocabulary
  and the model are loaded, it adopts the blob as the matrix, with the dimension and the
  normalised flag of the metadata and without a rebuild, exactly when both files exist and
  can be read, the metadata parses to an object and its signature is the one just computed;
  whether its row count and dimension fit the blob is not looked at. A missing file, or
  metadata that parses to a value other than \<^verbatim>\<open>null\<close> without that signature, starts the
  full rebuild, whose result is the result of the call. Next to a blob, metadata that cannot
  be read, does not parse, or parses to \<^verbatim>\<open>null\<close> ends the call with the error of
  \<^verbatim>\<open>readFile\<close>, of \<^verbatim>\<open>JSON.parse\<close>, or of the read of \<^verbatim>\<open>meta.signature\<close>; so does a blob
  that cannot be read under metadata with the current signature.
\<close>

theorem cache_load_or_rebuild:
  assumes "(build, rebuild) = (buildOrLoadEmbeddingMatrix_server, rebuild_server)
         \<or> (build, rebuild) = (buildOrLoadEmbeddingMatrix_part002, rebuild_part002)"
  shows "(loadVocab s = (Inl err, s0) \<longrightarrow> build e tpl s = (Inl err, s0))
       \<and> (loadVocab s = (Inr (), s0) \<and> ensureEmbedder e s0 = (Inl err, s1) \<longrightarrow>
          build e tpl s = (Inl err, s1))
       \<and> (loadVocab s = (Inr (), s0) \<and> ensureEmbedder e s0 = (Inr (), s1)
            \<and> sg = hashJSON e (dim s1) (vocab s1) tpl \<longrightarrow>
          (meta_file (disk s1) = Some (Holds (Meta meta)) \<and> bin_file (disk s1) = Some (Holds blob)
              \<and> meta_signature meta = sg \<longrightarrow>
            build e tpl s = (Inr (), s1\<lparr>matrix := Some blob, dim := meta_dim meta,
                                        normalized := meta_normalized meta\<rparr>))
          \<and> (meta_file (disk s1) = None \<or> bin_file (disk s1) = None
              \<or> meta_file (disk s1) = Some (Holds OtherJSON)
              \<or> (\<exists>m. meta_file (disk s1) = Some (Holds (Meta m)) \<and> meta_signature m \<noteq> sg) \<longrightarrow>
            build e tpl s = rebuild e tpl sg s1)
          \<and> (meta_file (disk s1) = Some Unreadable \<and> bin_file (disk s1) \<noteq> None \<longrightarrow>
            build e tpl s = (Inl IOError, s1))
          \<and> (meta_file (disk s1) = Some (Holds BadJSON) \<and> bin_file (disk s1) \<noteq> None \<longrightarrow>
            build e tpl s = (Inl SyntaxError, s1))
          \<and> (meta_file (disk s1) = Some (Holds NullJSON) \<and> bin_file (disk s1) \<noteq> None \<longrightarrow>
            build e tpl s = (Inl TypeError, s1))
          \<and> (meta_file (disk s1) = Some (Holds (Meta meta)) \<and> meta_signature meta = sg
              \<and> bin_file (disk s1) = Some Unreadable \<longrightarrow>
            build e tpl s = (Inl IOError, s1)))"
proof -
  from assms(1) have b: "build = buildOrLoad rebuild"
    by (auto simp: buildOrLoadEmbeddingMatrix_server_def buildOrLoadEmbeddingMatrix_part002_def)
  show ?thesis
    unfolding b buildOrLoad_def
    by (auto simp: Let_def split: option.splits meta_json.splits stored.splits)
qed

lemma demo_cache_loads:
  "loadVocab (demo_cache mf bf) = (Inr (), demo_cache_vocab mf bf)"
  "ensureEmbedder demo_env (demo_cache_vocab mf bf) = (Inr (), demo_cache_loaded mf bf)"
  "ensureEmbedder demo_env_no_model (demo_cache_vocab mf bf) = (Inl ProviderError, demo_cache_vocab mf bf)"
  "hashJSON demo_env (dim (demo_cache_loaded mf bf)) (vocab (demo_cache_loaded mf bf)) ''{w}''
     = demo_signature"
  "meta_file (disk (demo_cache_loaded mf bf)) = mf"
  "bin_file (disk (demo_cache_loaded mf bf)) = bf"
  by (simp_all add: loadVocab_def demo_cache_def demo_cache_vocab_def demo_cache_loaded_def
      demo_boot_def trim_def is_space_def dedupe_def ensureEmbedder_def demo_signature_def
      demo_env_no_model_def
      demo_env_def[THEN arg_cong[of _ _ pipeline_loads]]
      demo_env_def[THEN arg_cong[of _ _ pipe_test]])

lemma demo_boot_cache: "demo_cache None None = demo_boot" "demo_cache_loaded None None = demo_loaded"
  by (simp_all add: demo_cache_def demo_cache_vocab_def demo_cache_loaded_def demo_boot_def
      demo_loaded_def)

lemma demo_no_vocab_fails: "loadVocab demo_no_vocab = (Inl IOError, demo_no_vocab)"
  by (simp add: loadVocab_def demo_no_vocab_def demo_boot_def)

lemma demo_old_signature: "meta_signature demo_old_meta \<noteq> demo_signature"
  by (simp add: demo_old_meta_def demo_signature_def hashJSON_def MODEL_ID_def
      demo_env_def[THEN arg_cong[of _ _ sha256_json]])

lemma demo_cache_outcome:
  "buildOrLoad rebuild demo_env ''{w}'' (demo_cache mf bf) =
     (case (mf, bf) of
        (Some Unreadable, Some _) \<Rightarrow> (Inl IOError, demo_cache_loaded mf bf)
      | (Some (Holds BadJSON), Some _) \<Rightarrow> (Inl SyntaxError, demo_cache_loaded mf bf)
      | (Some (Holds NullJSON), Some _) \<Rightarrow> (Inl TypeError, demo_cache_loaded mf bf)
      | (Some (Holds (Meta meta)), Some bfile) \<Rightarrow>
          if meta_signature meta = demo_signature
          then (case bfile of
                  Unreadable \<Rightarrow> (Inl IOError, demo_cache_loaded mf bf)
                | Holds blob \<Rightarrow>
                    (Inr (), demo_cache_loaded mf bf\<lparr>matrix := Some blob, dim := meta_dim meta,
                                                     normalized := meta_normalized meta\<rparr>))
          else rebuild demo_env ''{w}'' demo_signature (demo_cache_loaded mf bf)
      | _ \<Rightarrow> rebuild demo_env ''{w}'' demo_signature (demo_cache_loaded mf bf))"
  by (simp add: buildOrLoad_def demo_cache_loads split: option.splits meta_json.splits stored.splits)

text \<open>
  C4 as stated fails: a cache whose signature matches is adopted although its metadata
  (five rows of three numbers) disagrees with its blob (one number); metadata that does
  not parse surfaces as an error instead of starting a rebuild, and so does metadata that
  parses to \<^verbatim>\<open>null\<close>.
\<close>

theorem stale_metadata_adopted:
  "buildOrLoadEmbeddingMatrix_server demo_env ''{w}'' demo_stale = (Inr (), demo_adopted)
   \<and> buildOrLoadEmbeddingMatrix_part002 demo_env ''{w}'' demo_stale = (Inr (), demo_adopted)
   \<and> matrix demo_adopted = Some [Fin 1]
   \<and> meta_file (disk demo_stale) = Some (Holds (Meta demo_stale_meta))
   \<and> bin_file (disk demo_stale) = Some (Holds [Fin 1])
   \<and> meta_n demo_stale_meta * meta_dim demo_stale_meta \<noteq> length [Fin (1::real)]
   \<and> buildOrLoadEmbeddingMatrix_server demo_env ''{w}'' demo_unparsable
       = (Inl SyntaxError, demo_unparsable_loaded)
   \<and> buildOrLoadEmbeddingMatrix_part002 demo_env ''{w}'' demo_unparsable
       = (Inl SyntaxError, demo_unparsable_loaded)
   \<and> buildOrLoadEmbeddingMatrix_server demo_env ''{w}'' demo_null_meta
       = (Inl TypeError, demo_null_meta_loaded)
   \<and> buildOrLoadEmbeddingMatrix_part002 demo_env ''{w}'' demo_null_meta
       = (Inl TypeError, demo_null_meta_loaded)"
  by (simp add: buildOrLoadEmbeddingMatrix_server_def buildOrLoadEmbeddingMatrix_part002_def
      demo_stale_def demo_unparsable_def demo_null_meta_def demo_cache_outcome
      demo_stale_loaded_def demo_unparsable_loaded_def demo_null_meta_loaded_def demo_adopted_def)
    (simp add: demo_stale_meta_def demo_cache_def)

theorem cache_load_or_rebuild_witness:
  "loadVocab demo_no_vocab = (Inl IOError, demo_no_vocab)
   \<and> buildOrLoadEmbeddingMatrix_server demo_env ''{w}'' demo_no_vocab = (Inl IOError, demo_no_vocab)
   \<and> loadVocab (demo_cache None None) = (Inr (), demo_cache_vocab None None)
   \<and> ensureEmbedder demo_env_no_model (demo_cache_vocab None None)
       = (Inl ProviderError, demo_cache_vocab None None)
   \<and> buildOrLoadEmbeddingMatrix_server demo_env_no_model ''{w}'' (demo_cache None None)
       = (Inl ProviderError, demo_cache_vocab None None)
   \<and> loadVocab demo_stale = (Inr (), demo_cache_vocab (Some (Holds (Meta demo_stale_meta))) (Some (Holds [Fin 1])))
   \<and> ensureEmbedder demo_env (demo_cache_vocab (Some (Holds (Meta demo_stale_meta))) (Some (Holds [Fin 1])))
       = (Inr (), demo_stale_loaded)
   \<and> demo_signature = hashJSON demo_env (dim demo_stale_loaded) (vocab demo_stale_loaded) ''{w}''
   \<and> meta_file (disk demo_stale_loaded) = Some (Holds (Meta demo_stale_meta))
   \<and> bin_file (disk demo_stale_loaded) = Some (Holds [Fin 1])
   \<and> meta_signature demo_stale_meta = demo_signature
   \<and> buildOrLoadEmbeddingMatrix_server demo_env ''{w}'' demo_stale
       = (Inr (), demo_stale_loaded\<lparr>matrix := Some [Fin 1], dim := meta_dim demo_stale_meta,
                                    normalized := meta_normalized demo_stale_meta\<rparr>)
   \<and> ensureEmbedder demo_env (demo_cache_vocab None None) = (Inr (), demo_cache_loaded None None)
   \<and> demo_signature = hashJSON demo_env (dim (demo_cache_loaded None None))
                                  (vocab (demo_cache_loaded None None)) ''{w}''
   \<and> meta_file (disk (demo_cache_loaded None None)) = None
   \<and> buildOrLoadEmbeddingMatrix_part002 demo_env ''{w}'' (demo_cache None None)
       = rebuild_part002 demo_env ''{w}'' demo_signature (demo_cache_loaded None None)
   \<and> meta_file (disk (demo_cache_loaded (Some (Holds (Meta demo_old_meta))) (Some (Holds [Fin 1]))))
       = Some (Holds (Meta demo_old_meta))
   \<and> meta_signature demo_old_meta \<noteq> demo_signature
   \<and> buildOrLoadEmbeddingMatrix_server demo_env ''{w}''
         (demo_cache (Some (Holds (Meta demo_old_meta))) (Some (Holds [Fin 1])))
       = rebuild_server demo_env ''{w}'' demo_signature
           (demo_cache_loaded (Some (Holds (Meta demo_old_meta))) (Some (Holds [Fin 1])))
   \<and> meta_file (disk (demo_cache_loaded (Some (Holds OtherJSON)) (Some (Holds [Fin 1]))))
       = Some (Holds OtherJSON)
   \<and> buildOrLoadEmbeddingMatrix_server demo_env ''{w}''
         (demo_cache (Some (Holds OtherJSON)) (Some (Holds [Fin 1])))
       = rebuild_server demo_env ''{w}'' demo_signature
           (demo_cache_loaded (Some (Holds OtherJSON)) (Some (Holds [Fin 1])))
   \<and> meta_file (disk (demo_cache_loaded (Some Unreadable) (Some (Holds [Fin 1])))) = Some Unreadable
   \<and> bin_file (disk (demo_cache_loaded (Some Unreadable) (Some (Holds [Fin 1])))) \<noteq> None
   \<and> buildOrLoadEmbeddingMatrix_server demo_env ''{w}''
         (demo_cache (Some Unreadable) (Some (Holds [Fin 1])))
       = (Inl IOError, demo_cache_loaded (Some Unreadable) (Some (Holds [Fin 1])))
   \<and> meta_file (disk demo_unparsable_loaded) = Some (Holds BadJSON)
   \<and> bin_file (disk demo_unparsable_loaded) \<noteq> None
   \<and> buildOrLoadEmbeddingMatrix_server demo_env ''{w}'' demo_unparsable
       = (Inl SyntaxError, demo_unparsable_loaded)
   \<and> meta_file (disk demo_null_meta_loaded) = Some (Holds NullJSON)
   \<and> bin_file (disk demo_null_meta_loaded) \<noteq> None
   \<and> buildOrLoadEmbeddingMatrix_part002 demo_env ''{w}'' demo_null_meta
       = (Inl TypeError, demo_null_meta_loaded)
   \<and> meta_file (disk (demo_cache_loaded (Some (Holds (Meta demo_stale_meta))) (Some Unreadable)))
       = Some (Holds (Meta demo_stale_meta))
   \<and> bin_file (disk (demo_cache_loaded (Some (Holds (Meta demo_stale_meta))) (Some Unreadable)))
       = Some Unreadable
   \<and> buildOrLoadEmbeddingMatrix_server demo_env ''{w}''
         (demo_cache (Some (Holds (Meta demo_stale_meta))) (Some Unreadable))
       = (Inl IOError, demo_cache_loaded (Some (Holds (Meta demo_stale_meta))) (Some Unreadable))"
proof -
  have a: "(buildOrLoadEmbeddingMatrix_server, rebuild_server) = (buildOrLoadEmbeddingMatrix_server, rebuild_server)
         \<or> (buildOrLoadEmbeddingMatrix_server, rebuild_server) = (buildOrLoadEmbeddingMatrix_part002, rebuild_part002)"
    by simp
  have b: "(buildOrLoadEmbeddingMatrix_part002, rebuild_part002) = (buildOrLoadEmbeddingMatrix_server, rebuild_server)
         \<or> (buildOrLoadEmbeddingMatrix_part002, rebuild_part002) = (buildOrLoadEmbeddingMatrix_part002, rebuild_part002)"
    by simp
  have f: "meta_signature demo_stale_meta = demo_signature"
    by (simp add: demo_stale_meta_def)
  note l = demo_cache_loads demo_no_vocab_fails demo_old_signature f
    demo_stale_def demo_stale_loaded_def demo_unparsable_def demo_unparsable_loaded_def
    demo_null_meta_def demo_null_meta_loaded_def
  have 1: "buildOrLoadEmbeddingMatrix_server demo_env ''{w}'' demo_no_vocab = (Inl IOError, demo_no_vocab)"
    using cache_load_or_rebuild[OF a, where s = demo_no_vocab and err = IOError
        and ?s0.0 = demo_no_vocab] by (simp add: l)
  have 2: "buildOrLoadEmbeddingMatrix_server demo_env_no_model ''{w}'' (demo_cache None None)
       = (Inl ProviderError, demo_cache_vocab None None)"
    using cache_load_or_rebuild[OF a, where s = "demo_cache None None" and err = ProviderError
        and e = demo_env_no_model
        and ?s0.0 = "demo_cache_vocab None None" and ?s1.0 = "demo_cache_vocab None None"]
    by (simp add: l)
  have 3: "buildOrLoadEmbeddingMatrix_server demo_env ''{w}'' demo_stale
       = (Inr (), demo_stale_loaded\<lparr>matrix := Some [Fin 1], dim := meta_dim demo_stale_meta,
                                    normalized := meta_normalized demo_stale_meta\<rparr>)"
    using cache_load_or_rebuild[OF a, where s = demo_stale and e = demo_env and tpl = "''{w}''"
        and ?s0.0 = "demo_cache_vocab (Some (Holds (Meta demo_stale_meta))) (Some (Holds [Fin 1]))"
        and ?s1.0 = demo_stale_loaded and sg = demo_signature and meta = demo_stale_meta
        and blob = "[Fin 1]"]
    by (simp add: l)
  have 4: "buildOrLoadEmbeddingMatrix_part002 demo_env ''{w}'' (demo_cache None None)
       = rebuild_part002 demo_env ''{w}'' demo_signature (demo_cache_loaded None None)"
    using cache_load_or_rebuild[OF b, where s = "demo_cache None None" and e = demo_env
        and tpl = "''{w}''" and ?s0.0 = "demo_cache_vocab None None"
        and ?s1.0 = "demo_cache_loaded None None" and sg = demo_signature]
    by (simp add: l)
  have 5: "buildOrLoadEmbeddingMatrix_server demo_env ''{w}''
         (demo_cache (Some (Holds (Meta demo_old_meta))) (Some (Holds [Fin 1])))
       = rebuild_server demo_env ''{w}'' demo_signature
           (demo_cache_loaded (Some (Holds (Meta demo_old_meta))) (Some (Holds [Fin 1])))"
    using cache_load_or_rebuild[OF a,
        where s = "demo_cache (Some (Holds (Meta demo_old_meta))) (Some (Holds [Fin 1]))"
        and e = demo_env and tpl = "''{w}''"
        and ?s0.0 = "demo_cache_vocab (Some (Holds (Meta demo_old_meta))) (Some (Holds [Fin 1]))"
        and ?s1.0 = "demo_cache_loaded (Some (Holds (Meta demo_old_meta))) (Some (Holds [Fin 1]))"
        and sg = demo_signature]
    by (simp add: l)
  have 6: "buildOrLoadEmbeddingMatrix_server demo_env ''{w}''
         (demo_cache (Some (Holds OtherJSON)) (Some (Holds [Fin 1])))
       = rebuild_server demo_env ''{w}'' demo_signature
           (demo_cache_loaded (Some (Holds OtherJSON)) (Some (Holds [Fin 1])))"
    using cache_load_or_rebuild[OF a,
        where s = "demo_cache (Some (Holds OtherJSON)) (Some (Holds [Fin 1]))"
        and e = demo_env and tpl = "''{w}''"
        and ?s0.0 = "demo_cache_vocab (Some (Holds OtherJSON)) (Some (Holds [Fin 1]))"
        and ?s1.0 = "demo_cache_loaded (Some (Holds OtherJSON)) (Some (Holds [Fin 1]))"
        and sg = demo_signature]
    by (simp add: l)
  have 7: "buildOrLoadEmbeddingMatrix_server demo_env ''{w}''
         (demo_cache (Some Unreadable) (Some (Holds [Fin 1])))
       = (Inl IOError, demo_cache_loaded (Some Unreadable) (Some (Holds [Fin 1])))"
    using cache_load_or_rebuild[OF a,
        where s = "demo_cache (Some Unreadable) (Some (Holds [Fin 1]))"
        and e = demo_env and tpl = "''{w}''"
        and ?s0.0 = "demo_cache_vocab (Some Unreadable) (Some (Holds [Fin 1]))"
        and ?s1.0 = "demo_cache_loaded (Some Unreadable) (Some (Holds [Fin 1]))"
        and sg = demo_signature]
    by (simp add: l)
  have 8: "buildOrLoadEmbeddingMatrix_server demo_env ''{w}'' demo_unparsable
       = (Inl SyntaxError, demo_unparsable_loaded)"
    using cache_load_or_rebuild[OF a, where s = demo_unparsable
        and e = demo_env and tpl = "''{w}''"
        and ?s0.0 = "demo_cache_vocab (Some (Holds BadJSON)) (Some (Holds [Fin 1]))"
        and ?s1.0 = demo_unparsable_loaded and sg = demo_signature]
    by (simp add: l)
  have 9: "buildOrLoadEmbeddingMatrix_part002 demo_env ''{w}'' demo_null_meta
       = (Inl TypeError, demo_null_meta_loaded)"
    using cache_load_or_rebuild[OF b, where s = demo_null_meta
        and e = demo_env and tpl = "''{w}''"
        and ?s0.0 = "demo_cache_vocab (Some (Holds NullJSON)) (Some (Holds [Fin 1]))"
        and ?s1.0 = demo_null_meta_loaded and sg = demo_signature]
    by (simp add: l)
  have 10: "buildOrLoadEmbeddingMatrix_server demo_env ''{w}''
         (demo_cache (Some (Holds (Meta demo_stale_meta))) (Some Unreadable))
       = (Inl IOError, demo_cache_loaded (Some (Holds (Meta demo_stale_meta))) (Some Unreadable))"
    using cache_load_or_rebuild[OF a,
        where s = "demo_cache (Some (Holds (Meta demo_stale_meta))) (Some Unreadable)"
        and e = demo_env and tpl = "''{w}''"
        and ?s0.0 = "demo_cache_vocab (Some (Holds (Meta demo_stale_meta))) (Some Unreadable)"
        and ?s1.0 = "demo_cache_loaded (Some (Holds (Meta demo_stale_meta))) (Some Unreadable)"
        and sg = demo_signature and meta = demo_stale_meta]
    by (simp add: l)
  show ?thesis
    using 1 2 3 4 5 6 7 8 9 10 by (simp add: l)
qed

section \<open>Properties of the search request\<close>

lemma ensureEmbedder_loaded: "embedder s \<Longrightarrow> ensureEmbedder e s = (Inr (), s)"
  by (simp add: ensureEmbedder_def)

lemma embed_out_loaded:
  "embedder s \<Longrightarrow> embed_out e out s =
     ((case out of None \<Rightarrow> Inl ProviderError | Some r \<Rightarrow> decode (dim s) r), s)"
  by (simp add: embed_out_def ensureEmbedder_loaded split: option.splits)

lemma embedMany_state: "embedder s \<Longrightarrow> snd (embedMany e texts s) = s"
  by (simp add: embedMany_def embed_out_loaded)

lemma search_loaded:
  assumes "matrix s \<noteq> None" "embedder s"
  shows "search build respond e r s =
    (case collectPairs (req_pairs r) of
       Inl err \<Rightarrow> (Inl err, s)
     | Inr pairObjs \<Rightarrow>
         (case fst (embedMany e (wordsToTexts e (flatWords pairObjs (req_target r)) (req_template r)) s) of
            Inl err \<Rightarrow> (Inl err, s)
          | Inr embs \<Rightarrow> (respond e r s pairObjs embs, s)))"
proof -
  have "(if matrix s = None then build e (req_template r) s else (Inr (), s)) = (Inr (), s)"
    by (simp add: assms(1))
  then show ?thesis
    by (simp add: search_def case_prod_beta embedMany_state[OF assms(2)] split: sum.splits)
qed

text \<open>
  C10. A search that finds a matrix in memory (and, as always then, the model loaded) is
  answered against that matrix whatever its context template: the builder is not called,
  and the request leaves the matrix, the dimension, the normalised flag, the vocabulary and
  the files as they were. This holds for both files.
\<close>

theorem search_leaves_cache:
  assumes "matrix s \<noteq> None" and "embedder s"
  shows "snd (search_server e r s) = s \<and> snd (search_part002 e r s) = s
       \<and> search_server e r s = search build respond_server e r s
       \<and> search_part002 e r s = search build respond_part002 e r s"
  by (auto simp: search_server_def search_part002_def search_loaded[OF assms] split: sum.splits)

text \<open>The embedder, once loaded, stays loaded, and a matrix is only ever set after it.\<close>

lemma ensureEmbedder_keeps:
  assumes "ensureEmbedder e s = (x, s')"
  shows "(embedder s \<longrightarrow> embedder s') \<and> matrix s' = matrix s \<and> (x = Inr () \<longrightarrow> embedder s')"
  using assms by (auto simp: ensureEmbedder_def Let_def split: if_splits option.splits)

lemma embedMany_keeps:
  assumes "embedMany e t s = (x, s')"
  shows "(embedder s \<longrightarrow> embedder s') \<and> matrix s' = matrix s"
  using assms ensureEmbedder_keeps[of e s]
  by (auto simp: embedMany_def embed_out_def split: prod.splits sum.splits option.splits)

lemma fillBatches_keeps: "embedder s \<Longrightarrow> embedder (snd (fillBatches e texts i s))"
proof (induction e texts i s rule: fillBatches.induct)
  case (1 e texts i s)
  show ?case
  proof (cases "i < length texts")
    case False
    then show ?thesis using "1.prems" by (simp add: fillBatches.simps)
  next
    case True
    obtain x s1 where em: "embedMany e (take BATCH_SIZE (drop i texts)) s = (x, s1)"
      by (cases "embedMany e (take BATCH_SIZE (drop i texts)) s")
    with embedMany_keeps[OF em] "1.prems" have l: "embedder s1" by simp
    show ?thesis
    proof (cases x)
      case (Inl err)
      with True em l show ?thesis by (subst fillBatches.simps) simp
    next
      case (Inr embs)
      show ?thesis
      proof (cases "matrix s1")
        case None
        with True em l Inr "1.IH"(1)[OF True em[symmetric] Inr None] show ?thesis
          by (subst fillBatches.simps) simp
      next
        case (Some m)
        obtain er m' where sr: "setRows embs i (dim s1) m = (er, m')"
          by (cases "setRows embs i (dim s1) m")
        show ?thesis
        proof (cases er)
          case None
          have "embedder (s1\<lparr>matrix := Some m'\<rparr>)" using l by simp
          from "1.IH"(2)[OF True em[symmetric] Inr Some sr[symmetric] None this]
          show ?thesis using True em Inr Some sr None by (subst fillBatches.simps) simp
        next
          case (Some err)
          with True em l Inr \<open>matrix s1 = Some m\<close> sr show ?thesis
            by (subst fillBatches.simps) simp
        qed
      qed
    qed
  qed
qed

lemma finishBuild_keeps: "embedder s \<Longrightarrow> embedder (snd (finishBuild e sg s))"
  by (auto simp: finishBuild_def Let_def split: option.splits prod.splits)

lemma probe_dim_keeps: "embedder s \<Longrightarrow> embedder (snd (probe_dim e texts s))"
  by (auto simp: probe_dim_def embed_out_loaded split: option.splits sum.splits list.splits)

lemma rebuild_keeps:
  assumes "embedder s"
  shows "embedder (snd (rebuild_server e tpl sg s))" "embedder (snd (rebuild_part002 e tpl sg s))"
proof -
  let ?t = "wordsToTexts e (vocab s) tpl"
  have tail: "embedder (snd (case fillBatches e ?t 0 s1 of
                               (Inl err, s2) \<Rightarrow> (Inl err, s2)
                             | (Inr u, s2) \<Rightarrow> finishBuild e sg s2))" if "embedder s1" for s1
  proof -
    obtain x s2 where f: "fillBatches e ?t 0 s1 = (x, s2)" by (cases "fillBatches e ?t 0 s1")
    with fillBatches_keeps[OF that, of e ?t 0] have "embedder s2" by simp
    with f finishBuild_keeps show ?thesis by (cases x) auto
  qed
  show "embedder (snd (rebuild_server e tpl sg s))"
    using tail[of "s\<lparr>matrix := Some (replicate (length (vocab s) * dim s) (Fin 0))\<rparr>"] assms
    by (simp add: rebuild_server_def Let_def)
  obtain x s0 where p: "probe_dim e ?t s = (x, s0)" by (cases "probe_dim e ?t s")
  with probe_dim_keeps[OF assms, of e ?t] have l0: "embedder s0" by simp
  show "embedder (snd (rebuild_part002 e tpl sg s))"
    using tail[of "s0\<lparr>matrix := Some (replicate (length (vocab s0) * dim s0) (Fin 0))\<rparr>"] l0 p
    by (cases x) (simp_all add: rebuild_part002_def Let_def)
qed

lemma buildOrLoad_cache_after_model:
  assumes "matrix s \<noteq> None \<longrightarrow> embedder s"
    and "b = buildOrLoadEmbeddingMatrix_server \<or> b = buildOrLoadEmbeddingMatrix_part002"
  shows "matrix (snd (b e tpl s)) \<noteq> None \<longrightarrow> embedder (snd (b e tpl s))"
proof -
  obtain y s0 where lv: "loadVocab s = (y, s0)" by (cases "loadVocab s")
  have l0: "matrix s0 = matrix s" "embedder s0 = embedder s"
    using lv by (auto simp: loadVocab_def split: option.splits stored.splits)
  obtain x s1 where en: "ensureEmbedder e s0 = (x, s1)" by (cases "ensureEmbedder e s0")
  show ?thesis
  proof (cases y)
    case (Inl err)
    with lv l0 assms show ?thesis
      by (auto simp: buildOrLoadEmbeddingMatrix_server_def buildOrLoadEmbeddingMatrix_part002_def
          buildOrLoad_def)
  next
    case y: (Inr u0)
    show ?thesis
    proof (cases x)
      case (Inl err)
      with lv y en assms l0 ensureEmbedder_keeps[OF en] show ?thesis
        by (auto simp: buildOrLoadEmbeddingMatrix_server_def buildOrLoadEmbeddingMatrix_part002_def
            buildOrLoad_def)
    next
      case (Inr u)
      with ensureEmbedder_keeps[OF en] have l: "embedder s1" by simp
      with lv y en Inr assms(2) rebuild_keeps[OF l] show ?thesis
        by (auto simp: buildOrLoadEmbeddingMatrix_server_def buildOrLoadEmbeddingMatrix_part002_def
            buildOrLoad_def Let_def split: option.splits meta_json.splits stored.splits)
    qed
  qed
qed

lemma jadd_zero [simp]: "jadd x (Fin 0) = x"
  by (cases x) auto

lemma avgDelta_of_Nil: "avgDelta_of d [] = replicate d (Fin 0)"
  by (simp add: avgDelta_of_def map_replicate_trivial)






lemma destructure_iterable: "iterable p \<Longrightarrow> \<exists>a b. destructure p = Inr (a, b)"
  by (cases p) auto

lemma collectPairs_total:
  "\<forall>p\<in>set ps. iterable p \<Longrightarrow> \<exists>po. collectPairs ps = Inr po"
proof (induction ps)
  case Nil
  then show ?case by simp
next
  case (Cons p ps)
  then obtain a b po where "destructure p = Inr (a, b)" "collectPairs ps = Inr po"
    using destructure_iterable[of p] by auto
  then show ?case by (cases a; cases b) auto
qed

lemma wellformed_iff: "wellformed p \<longleftrightarrow> (\<exists>a b. destructure p = Inr (JStr a, JStr b))"
  by (auto simp: wellformed_def split: sum.splits prod.splits jsval.splits)

lemma collectPairs_filter:
  "\<forall>p\<in>set ps. iterable p \<Longrightarrow> collectPairs (filter wellformed ps) = collectPairs ps"
proof (induction ps)
  case Nil
  then show ?case by simp
next
  case (Cons p ps)
  then obtain a b where d: "destructure p = Inr (a, b)"
    using destructure_iterable[of p] by auto
  from Cons have ih: "collectPairs (filter wellformed ps) = collectPairs ps" by simp
  show ?case
  proof (cases "wellformed p")
    case True
    then obtain x y where "destructure p = Inr (JStr x, JStr y)" by (auto simp: wellformed_iff)
    with True ih show ?thesis by simp
  next
    case False
    then have "\<nexists>x y. a = JStr x \<and> b = JStr y" using d by (auto simp: wellformed_iff)
    then have "collectPairs (p # ps) = collectPairs ps"
      using d by (cases a; cases b) auto
    with False ih show ?thesis by simp
  qed
qed

lemma respond_pairs_irrelevant:
  assumes "excludeSet r' = excludeSet r" "req_k r' = req_k r" "req_target r' = req_target r"
    "req_includeSeeds r' = req_includeSeeds r"
  shows "respond_server e r' s po embs = respond_server e r s po embs"
    and "respond_part002 e r' s po embs = respond_part002 e r s po embs"
  unfolding respond_server_def respond_part002_def assms by (rule refl)+

lemma topKSimilar_isl: "isl (topKSimilar s v k ex) \<longleftrightarrow> matrix s = None \<and> vocab s \<noteq> []"
  by (simp add: topKSimilar_def Let_def split: option.splits)

lemma topKSimilar_no_matrix:
  "matrix s = None \<Longrightarrow> topKSimilar s v k ex = Inr nbrs \<Longrightarrow> nbrs = []"
  by (simp add: topKSimilar_def Let_def split: if_splits)

lemma makePCA_part002_isl:
  "isl (makePCA_part002 e pts) \<longleftrightarrow> pts \<noteq> [] \<and> None \<in> set (map pvec pts)"
  by (simp add: makePCA_part002_def Let_def split: prod.splits)

lemma neighborPoints_defined:
  "topKSimilar s v k ex = Inr nbrs \<Longrightarrow> None \<notin> set (map pvec (neighborPoints s c nbrs))"
proof (cases "matrix s")
  case None
  assume "topKSimilar s v k ex = Inr nbrs"
  with None have "nbrs = []" by (rule topKSimilar_no_matrix)
  then show ?thesis by (simp add: neighborPoints_def)
next
  case (Some m)
  then show ?thesis by (auto simp: neighborPoints_def)
qed

lemma respond_part002_isl:
  "isl (respond_part002 e r s po embs) \<longleftrightarrow>
     length embs \<noteq> length (flatWords po (req_target r))
   \<or> isl (deltas_from (dim s) embs [0..<length po])
   \<or> (\<exists>deltas. deltas_from (dim s) embs [0..<length po] = Inr deltas
         \<and> isl (transformed_of (dim s) (last_at embs) (avgDelta_of (dim s) deltas)))
   \<or> (matrix s = None \<and> vocab s \<noteq> [])
   \<or> last_at embs = None
   \<or> (req_includeSeeds r \<and> None \<in> set (map pvec (seedPoints po embs)))"
proof (cases "length embs \<noteq> length (flatWords po (req_target r))")
  case True
  then show ?thesis by (simp add: respond_part002_def)
next
  case c: False
  show ?thesis
  proof (cases "deltas_from (dim s) embs [0..<length po]")
    case (Inl err)
    with c show ?thesis by (simp add: respond_part002_def)
  next
    case d: (Inr deltas)
    show ?thesis
    proof (cases "transformed_of (dim s) (last_at embs) (avgDelta_of (dim s) deltas)")
      case (Inl err)
      with c d show ?thesis by (simp add: respond_part002_def)
    next
      case t: (Inr tr)
      show ?thesis
      proof (cases "topKSimilar s tr (req_k r) (excludeSet r)")
        case (Inl err)
        then have "matrix s = None \<and> vocab s \<noteq> []"
          using topKSimilar_isl[of s tr "req_k r" "excludeSet r"] by simp
        with c d t Inl show ?thesis by (simp add: respond_part002_def)
      next
        case n: (Inr nbrs)
        then have nm: "\<not> (matrix s = None \<and> vocab s \<noteq> [])"
          using topKSimilar_isl[of s tr "req_k r" "excludeSet r"] by simp
        let ?pts = "neighborPoints s True nbrs
               @ [\<lparr>pid = ''target'', plabel = req_target r, pkind = Target, pvec = last_at embs,
                    pscore = None\<rparr>,
                  \<lparr>pid = ''predicted'', plabel = req_target r @ ''*'', pkind = Predicted,
                    pvec = Some (normalizeVec tr), pscore = None\<rparr>]
               @ (if req_includeSeeds r then seedPoints po embs else [])"
        have pca: "isl (makePCA_part002 e ?pts) \<longleftrightarrow>
                last_at embs = None
              \<or> (req_includeSeeds r \<and> None \<in> set (map pvec (seedPoints po embs)))"
          using neighborPoints_defined[OF n, of True]
          by (auto simp: makePCA_part002_isl)
        show ?thesis
        proof (cases "makePCA_part002 e ?pts")
          case (Inl err)
          with pca c d t n nm show ?thesis by (simp add: respond_part002_def Let_def)
        next
          case (Inr out)
          with pca c d t n nm show ?thesis
            by (cases out) (auto simp: respond_part002_def Let_def split: option.splits)
        qed
      qed
    qed
  qed
qed

lemma search_part002_isl_pairs:
  assumes "collectPairs (req_pairs r') = collectPairs (req_pairs r)"
    "req_target r' = req_target r" "req_includeSeeds r' = req_includeSeeds r"
    "req_template r' = req_template r"
  shows "isl (fst (search_part002 e r' s)) = isl (fst (search_part002 e r s))"
  unfolding search_part002_def search_def assms
  by (auto simp: respond_part002_isl assms split: sum.splits prod.splits)

text \<open>
  What the guard \<^verbatim>\<open>typeof a !== 'string' || typeof b !== 'string'\<close> does reach: when every
  entry of the pair list can be taken apart (an array or a string), the entries with a
  member that is not a string are dropped without an error, and the pairs kept are those of
  the list without them. With the same exclusion set the request is then answered, in both
  files, exactly as the request without them; and in \<^verbatim>\<open>src/unnamed/part_002\<close>, whatever
  the exclusion sets, it is answered if and only if the request without them is.
\<close>

lemma malformed_pairs_dropped:
  assumes "\<forall>p\<in>set (req_pairs r). iterable p"
    and "r' = r\<lparr>req_pairs := filter wellformed (req_pairs r)\<rparr>"
  shows "(\<exists>pairObjs. collectPairs (req_pairs r) = Inr pairObjs \<and> collectPairs (req_pairs r') = Inr pairObjs)
       \<and> (excludeSet r' = excludeSet r \<longrightarrow>
            search_server e r s = search_server e r' s
          \<and> search_part002 e r s = search_part002 e r' s)
       \<and> isl (fst (search_part002 e r s)) = isl (fst (search_part002 e r' s))"
proof (intro conjI impI)
  from collectPairs_total[OF assms(1)] collectPairs_filter[OF assms(1)] assms(2)
  show "\<exists>pairObjs. collectPairs (req_pairs r) = Inr pairObjs \<and> collectPairs (req_pairs r') = Inr pairObjs"
    by auto
next
  assume ex: "excludeSet r' = excludeSet r"
  have c: "collectPairs (req_pairs r') = collectPairs (req_pairs r)"
    using collectPairs_filter[OF assms(1)] assms(2) by simp
  have f: "req_k r' = req_k r" "req_target r' = req_target r"
    "req_includeSeeds r' = req_includeSeeds r" "req_template r' = req_template r"
    using assms(2) by simp_all
  note rs = respond_pairs_irrelevant[OF ex f(1,2,3)]
  show "search_server e r s = search_server e r' s"
    unfolding search_server_def search_def c f rs by (rule refl)
  show "search_part002 e r s = search_part002 e r' s"
    unfolding search_part002_def search_def c f rs by (rule refl)
next
  have c: "collectPairs (req_pairs r') = collectPairs (req_pairs r)"
    using collectPairs_filter[OF assms(1)] assms(2) by simp
  have f: "req_target r' = req_target r" "req_includeSeeds r' = req_includeSeeds r"
    "req_template r' = req_template r"
    using assms(2) by simp_all
  show "isl (fst (search_part002 e r s)) = isl (fst (search_part002 e r' s))"
    using search_part002_isl_pairs[OF c f, of e s] by simp
qed

lemma demo_search_loaded:
  "search build respond e r demo_state =
    (case collectPairs (req_pairs r) of
       Inl err \<Rightarrow> (Inl err, demo_state)
     | Inr pairObjs \<Rightarrow>
         (case fst (embedMany e (wordsToTexts e (flatWords pairObjs (req_target r)) (req_template r)) demo_state) of
            Inl err \<Rightarrow> (Inl err, demo_state)
          | Inr embs \<Rightarrow> (respond e r demo_state pairObjs embs, demo_state)))"
  by (rule search_loaded) (simp_all add: demo_fields)

lemma demo_texts_pca: "wordsToTexts demo_env_pca_throws ws ''{w}'' = ws"
  by (simp add: wordsToTexts_def demo_env_pca_throws_def demo_env_def)

lemma demo_embedMany_pca:
  "embedder s \<Longrightarrow> embedMany demo_env_pca_throws texts s =
     (Inr (map (\<lambda>t. [if t = ''a'' then Fin 2 else Fin 0]) texts), s)"
  by (auto simp: embedMany_def embed_out_def ensureEmbedder_def demo_env_pca_throws_def
      demo_env_def decode_def Let_def comp_def)

lemma demo_topK_2:
  "topKSimilar demo_state [Fin 2] k ex =
     Inr (walk [''a'', ''b''] [Fin 1, Fin 0] k ex [0, 1] [])"
  by (simp add: topKSimilar_def demo_normalize2 demo_fields demo_ranked demo_sims)

text \<open>
  C3 on \<^verbatim>\<open>src/server/index.js\<close>: its \<^verbatim>\<open>makePCA\<close> catches nothing, so a throw of the PCA
  library leaves the handler through its \<^verbatim>\<open>catch\<close> and the request is answered with the
  error, not with zero coordinates and the neighbours.
\<close>

theorem server_pca_throw_fails_request:
  "search_server demo_env_pca_throws demo_request0 demo_state = (Inl PCAError, demo_state)"
  by (simp add: search_server_def demo_search_loaded demo_request0_def demo_texts_pca
      demo_embedMany_pca demo_fields flatWords_def respond_server_def last_at_def
      avgDelta_of_Nil transformed_of_def rd_def demo_normalize2 demo_topK excludeSet_def
      neighborPoints_def getRow_def makePCA_server_def seedPoints_def Let_def
      demo_env_pca_throws_def[THEN arg_cong[of _ _ pca_new]])

lemma makePCA_server_throws:
  assumes "\<forall>X. \<not> pca_new e X" "pts \<noteq> []"
  shows "isl (makePCA_server e pts)"
  using assms by (simp add: makePCA_server_def Let_def)

lemma respond_server_needs_pca:
  assumes "respond_server e r s po embs = Inr resp"
  shows "\<exists>pts out. pts \<noteq> [] \<and> makePCA_server e pts = Inr out"
proof -
  from assms obtain nbrs tr out where
    m: "makePCA_server e
       (neighborPoints s False nbrs
        @ [\<lparr>pid = ''target'', plabel = req_target r, pkind = Target, pvec = last_at embs,
             pscore = None\<rparr>,
           \<lparr>pid = ''predicted'', plabel = req_target r @ ''*'', pkind = Predicted,
             pvec = Some tr, pscore = None\<rparr>]
        @ (if req_includeSeeds r then seedPoints po embs else [])) = Inr out"
    by (auto simp: respond_server_def Let_def split: sum.splits option.splits prod.splits)
  have "neighborPoints s False nbrs
        @ [\<lparr>pid = ''target'', plabel = req_target r, pkind = Target, pvec = last_at embs,
             pscore = None\<rparr>,
           \<lparr>pid = ''predicted'', plabel = req_target r @ ''*'', pkind = Predicted,
             pvec = Some tr, pscore = None\<rparr>]
        @ (if req_includeSeeds r then seedPoints po embs else []) \<noteq> []" by simp
  with m show ?thesis by blast
qed

lemma respond_server_pca_throws:
  assumes "\<forall>X. \<not> pca_new e X"
  shows "isl (respond_server e r s po embs)"
proof (cases "respond_server e r s po embs")
  case (Inl err)
  then show ?thesis by simp
next
  case (Inr resp)
  from respond_server_needs_pca[OF this] makePCA_server_throws[OF assms]
  show ?thesis by (metis sum.disc(2))
qed

lemma map_by_index: "map (\<lambda>i. f (xs ! i)) [0..<length xs] = map f xs"
  by (rule nth_equalityI) simp_all

lemma makePCA_part002_throws:
  assumes "\<forall>X. \<not> pca_new e X" "None \<notin> set (map pvec pts)"
  shows "makePCA_part002 e pts =
           Inr (map (\<lambda>p. \<lparr>point = p, px = Fin 0, py = Fin 0, pz = Fin 0\<rparr>) pts,
                [Fin 0, Fin 0, Fin 0])"
proof (cases "pts = []")
  case True
  then show ?thesis by (simp add: makePCA_part002_def)
next
  case False
  have tp: "try_pca e X n = ([], [])" for X n
    using assms(1) by (simp add: try_pca_def)
  have pl: "place_part002 (map (\<lambda>_. [Fin 0, Fin 0, Fin 0]) (map (\<lambda>p. the (pvec p)) pts)) i (pts ! i)
        = \<lparr>point = pts ! i, px = Fin 0, py = Fin 0, pz = Fin 0\<rparr>" if "i < length pts" for i
    using that by (simp add: place_part002_def rd_def)
  have "map (\<lambda>i. place_part002 (map (\<lambda>_. [Fin 0, Fin 0, Fin 0]) (map (\<lambda>p. the (pvec p)) pts)) i (pts ! i))
          [0..<length pts]
        = map (\<lambda>i. (\<lambda>p. \<lparr>point = p, px = Fin 0, py = Fin 0, pz = Fin 0\<rparr>) (pts ! i)) [0..<length pts]"
    using pl by simp
  also have "\<dots> = map (\<lambda>p. \<lparr>point = p, px = Fin 0, py = Fin 0, pz = Fin 0\<rparr>) pts"
    by (rule map_by_index)
  finally have m: "map (\<lambda>i. place_part002 (map (\<lambda>_. [Fin 0, Fin 0, Fin 0]) (map (\<lambda>p. the (pvec p)) pts)) i (pts ! i))
          [0..<length pts] = map (\<lambda>p. \<lparr>point = p, px = Fin 0, py = Fin 0, pz = Fin 0\<rparr>) pts" .
  have e1: "makePCA_part002 e pts =
      Inr (map (\<lambda>i. place_part002 (map (\<lambda>_. [Fin 0, Fin 0, Fin 0]) (map (\<lambda>p. the (pvec p)) pts)) i (pts ! i))
             [0..<length pts],
           [or0 (rd [] 0), or0 (rd [] 1), or0 (rd [] 2)])"
    using assms(2) False by (simp add: makePCA_part002_def tp Let_def)
  show ?thesis by (simp only: e1 m) (simp add: rd_def or0_def)
qed

lemma makePCA_part002_total:
  "None \<notin> set (map pvec pts) \<Longrightarrow> \<exists>placed ev. makePCA_part002 e pts = Inr (placed, ev)"
  by (simp add: makePCA_part002_def Let_def split: prod.splits)

lemma makePCA_part002_undefined:
  "None \<in> set (map pvec pts) \<Longrightarrow> makePCA_part002 e pts = Inl TypeError"
  by (auto simp: makePCA_part002_def)

lemma part002_pca_throw_falls_back:
  assumes "\<forall>X. \<not> pca_new e X"
    and "respond_part002 e' r s po embs = Inr resp'"
  shows "\<exists>resp. respond_part002 e r s po embs = Inr resp
           \<and> neighbors resp = neighbors resp' \<and> avgDelta resp = avgDelta resp'
           \<and> transformed resp = transformed resp'
           \<and> (\<forall>p\<in>set (points resp). rx p = Fin 0 \<and> ry p = Fin 0)
           \<and> explainedVariance resp = [Fin 0, Fin 0, Fin 0]"
proof -
  from assms(2) obtain deltas tr nbrs t pts' ev' where
    c: "length embs = length (flatWords po (req_target r))"
    and d: "deltas_from (dim s) embs [0..<length po] = Inr deltas"
    and tr: "transformed_of (dim s) (last_at embs) (avgDelta_of (dim s) deltas) = Inr tr"
    and n: "topKSimilar s tr (req_k r) (excludeSet r) = Inr nbrs"
    and t: "last_at embs = Some t"
    and p: "makePCA_part002 e'
              (neighborPoints s True nbrs
               @ [\<lparr>pid = ''target'', plabel = req_target r, pkind = Target, pvec = last_at embs,
                    pscore = None\<rparr>,
                  \<lparr>pid = ''predicted'', plabel = req_target r @ ''*'', pkind = Predicted,
                    pvec = Some (normalizeVec tr), pscore = None\<rparr>]
               @ (if req_includeSeeds r then seedPoints po embs else [])) = Inr (pts', ev')"
    and r': "neighbors resp' = map (\<lambda>n. (word n, score n)) nbrs"
      "avgDelta resp' = avgDelta_of (dim s) deltas" "transformed resp' = tr"
    by (auto simp: respond_part002_def Let_def split: sum.splits option.splits prod.splits if_splits)
  let ?pts = "neighborPoints s True nbrs
               @ [\<lparr>pid = ''target'', plabel = req_target r, pkind = Target, pvec = last_at embs,
                    pscore = None\<rparr>,
                  \<lparr>pid = ''predicted'', plabel = req_target r @ ''*'', pkind = Predicted,
                    pvec = Some (normalizeVec tr), pscore = None\<rparr>]
               @ (if req_includeSeeds r then seedPoints po embs else [])"
  have "None \<notin> set (map pvec ?pts)"
    using p makePCA_part002_undefined[of ?pts e'] by auto
  from makePCA_part002_throws[OF assms(1) this] c d tr n t r' show ?thesis
    by (auto simp: respond_part002_def Let_def)
qed

lemma part002_count_check:
  assumes "matrix s \<noteq> None" "embedder s"
    and "collectPairs (req_pairs r) = Inr po"
    and "fst (embedMany e (wordsToTexts e (flatWords po (req_target r)) (req_template r)) s) = Inr embs"
    and "length embs \<noteq> length (flatWords po (req_target r))"
  shows "search_part002 e r s = (Inl CountMismatch, s)"
  using assms(3,4,5)
  by (simp add: search_part002_def search_loaded[OF assms(1,2)] respond_part002_def)

lemma demo_embedMany_two:
  "embedder s \<Longrightarrow> embedMany demo_env_two_vectors texts s = (Inr [[Fin 0], [Fin 2]], s)"
  by (auto simp: embedMany_def embed_out_def ensureEmbedder_def demo_env_two_vectors_def
      demo_env_def decode_def Let_def comp_def)

lemma demo_texts_two: "wordsToTexts demo_env_two_vectors ws ''{w}'' = ws"
  by (simp add: wordsToTexts_def demo_env_two_vectors_def demo_env_def)

text \<open>
  C5 on \<^verbatim>\<open>src/server/index.js\<close>: the handler does not compare the number of vectors with
  the number of texts. Asked for the one text \<open>b\<close>, a provider that returns two vectors is
  taken at its last vector, and the request is answered from it.
\<close>

theorem server_accepts_extra_vectors:
  "wordsToTexts demo_env_two_vectors (flatWords [] (req_target demo_request_b))
      (req_template demo_request_b) = [''b'']
   \<and> fst (embedMany demo_env_two_vectors [''b''] demo_state) = Inr [[Fin 0], [Fin 2]]
   \<and> (case fst (search_server demo_env_two_vectors demo_request_b demo_state) of
         Inl err \<Rightarrow> False
       | Inr resp \<Rightarrow> targetEmbedding resp = [Fin 2] \<and> neighbors resp = [(''a'', Fin 1)])"
  by (simp add: search_server_def demo_search_loaded demo_request_b_def demo_request0_def
      demo_texts_two
      demo_embedMany_two demo_fields flatWords_def respond_server_def last_at_def
      avgDelta_of_Nil transformed_of_def rd_def demo_normalize2 demo_topK excludeSet_def
      neighborPoints_def getRow_def makePCA_server_def seedPoints_def Let_def
      demo_env_two_vectors_def[THEN arg_cong[of _ _ pca_new]]
      demo_env_two_vectors_def[THEN arg_cong[of _ _ pca_predict]]
      demo_env_two_vectors_def[THEN arg_cong[of _ _ pca_explained]]
      demo_env_def[THEN arg_cong[of _ _ pca_new]]
      demo_env_def[THEN arg_cong[of _ _ pca_predict]]
      demo_env_def[THEN arg_cong[of _ _ pca_explained]])

lemma part002_rejects_extra_vectors:
  "search_part002 demo_env_two_vectors demo_request_b demo_state = (Inl CountMismatch, demo_state)"
  by (rule part002_count_check[where po = "[]" and embs = "[[Fin 0], [Fin 2]]"])
    (simp_all add: demo_fields demo_request_b_def demo_request0_def demo_embedMany_two flatWords_def)

section \<open>Properties of the neighbour search with rounding\<close>

subsection \<open>Rounding\<close>

lemma rne_near:
  assumes "\<bar>y - of_int n\<bar> < 1 / 2"
  shows "rne y = n"
proof (cases "of_int n \<le> y")
  case True
  with assms have f: "\<lfloor>y\<rfloor> = n" unfolding floor_eq_iff by linarith
  with assms True show ?thesis by (simp add: rne_def Let_def)
next
  case False
  with assms have f: "\<lfloor>y\<rfloor> = n - 1" unfolding floor_eq_iff by simp
  with assms False show ?thesis by (auto simp: rne_def Let_def)
qed

lemma scaled_nonzero:
  assumes "(2::real) ^ q \<le> \<bar>x\<bar> * 2 ^ k"
  shows "x \<noteq> 0"
proof
  assume "x = 0"
  then have "\<bar>x\<bar> * 2 ^ k = 0" by simp
  moreover have "(0::real) < 2 ^ q" by simp
  ultimately show False using assms by linarith
qed

lemma expo_eq:
  assumes "2 ^ (p - 1) \<le> \<bar>x\<bar> * 2 ^ k" "\<bar>x\<bar> * 2 ^ k < 2 ^ p" "0 < p"
  shows "expo x = int p - 1 - int k"
proof -
  have x0: "0 < \<bar>x\<bar>" using scaled_nonzero[OF assms(1)] by simp
  have lo: "2 powr of_int (int p - 1 - int k) \<le> \<bar>x\<bar>"
  proof -
    have "2 powr of_int (int p - 1 - int k) = (2::real) ^ (p - 1) / 2 ^ k"
      using assms(3) by (simp add: powr_diff powr_realpow[symmetric] of_nat_diff)
    also have "\<dots> \<le> \<bar>x\<bar>" using assms(1) by (simp add: field_simps)
    finally show ?thesis .
  qed
  have hi: "\<bar>x\<bar> < 2 powr of_int (int p - 1 - int k + 1)"
  proof -
    have "2 powr of_int (int p - 1 - int k + 1) = (2::real) ^ p / 2 ^ k"
      by (simp add: powr_diff powr_realpow[symmetric])
    moreover have "\<bar>x\<bar> < 2 ^ p / 2 ^ k" using assms(2) by (simp add: field_simps)
    ultimately show ?thesis by simp
  qed
  have "of_int (int p - 1 - int k) \<le> log 2 \<bar>x\<bar>"
    using lo x0 by (simp add: le_log_iff)
  moreover have "log 2 \<bar>x\<bar> < of_int (int p - 1 - int k + 1)"
    using hi x0 by (simp add: log_less_iff)
  ultimately show ?thesis unfolding expo_def by (simp add: floor_eq_iff)
qed

text \<open>
  A certificate for a rounding: \<open>x\<close> lies in the binade whose numbers of \<open>p\<close> bits are the
  multiples of \<open>1 / 2 ^ k\<close>, and is nearer than half a step to the multiple \<open>n\<close>.
\<close>

lemma rnd_cert:
  assumes "2 ^ (p - 1) \<le> \<bar>x\<bar> * 2 ^ k" "\<bar>x\<bar> * 2 ^ k < 2 ^ p"
    and "\<bar>x * 2 ^ k - of_int n\<bar> < 1 / 2" "0 < p"
  shows "rnd p x = of_int n / 2 ^ k"
proof -
  have x0: "x \<noteq> 0" using assms(1) by (rule scaled_nonzero)
  have e: "expo x - int p + 1 = - int k" using expo_eq[OF assms(1,2,4)] by simp
  have u: "2 powr of_int (expo x - int p + 1) = 1 / (2::real) ^ k"
    unfolding e by (simp add: powr_minus powr_realpow divide_inverse)
  have "rne (x / (1 / 2 ^ k)) = n" using assms(3) by (intro rne_near) simp
  with x0 u show ?thesis by (simp add: rnd_def Let_def)
qed

lemma rnd_sqrt_cert:
  assumes "(of_int n - 1 / 2) * (of_int n - 1 / 2) < s * 4 ^ k"
    and "s * 4 ^ k < (of_int n + 1 / 2) * (of_int n + 1 / 2)"
    and "2 ^ (p - 1) < n" "n < 2 ^ p" "0 < p"
  shows "rnd p (sqrt s) = of_int n / 2 ^ k"
proof -
  have "(0::int) < 2 ^ (p - 1)" by simp
  then have n1: "1 \<le> n" using assms(3) by linarith
  have y: "sqrt s * 2 ^ k = sqrt (s * 4 ^ k)"
  proof -
    have "(4::real) ^ k = (2 ^ k)\<^sup>2"
      by (simp add: power_mult[symmetric] mult.commute power2_eq_square
          power_mult_distrib[symmetric])
    then show ?thesis by (simp add: real_sqrt_mult)
  qed
  have lo: "of_int n - 1 / 2 < sqrt (s * 4 ^ k)"
    using assms(1) by (intro real_less_rsqrt) (simp add: power2_eq_square)
  have hi: "sqrt (s * 4 ^ k) < of_int n + 1 / 2"
    using assms(2) n1 by (intro real_less_lsqrt) (auto simp: power2_eq_square)
  have "0 < s * 4 ^ k"
    using assms(1) zero_le_square[of "real_of_int n - 1 / 2"] by linarith
  then have "0 < s" by (simp add: zero_less_mult_iff)
  then have "0 \<le> sqrt s" by simp
  then have ab: "\<bar>sqrt s\<bar> * 2 ^ k = sqrt s * 2 ^ k" by simp
  have a: "(2::real) ^ (p - 1) \<le> of_int n - 1 / 2"
  proof -
    have "2 ^ (p - 1) + 1 \<le> n" using assms(3) by simp
    then have "of_int (2 ^ (p - 1) + 1) \<le> (of_int n :: real)" by (rule of_int_le_iff[THEN iffD2])
    then show ?thesis by simp
  qed
  have b: "of_int n + 1 / 2 \<le> (2::real) ^ p"
  proof -
    have "n + 1 \<le> 2 ^ p" using assms(4) by simp
    then have "of_int (n + 1) \<le> (of_int (2 ^ p) :: real)" by (rule of_int_le_iff[THEN iffD2])
    then show ?thesis by simp
  qed
  show ?thesis
  proof (rule rnd_cert)
    show "2 ^ (p - 1) \<le> \<bar>sqrt s\<bar> * 2 ^ k" unfolding ab y using a lo by linarith
    show "\<bar>sqrt s\<bar> * 2 ^ k < 2 ^ p" unfolding ab y using b hi by linarith
    show "\<bar>sqrt s * 2 ^ k - of_int n\<bar> < 1 / 2" unfolding y using lo hi by linarith
    show "0 < p" by fact
  qed
qed

subsection \<open>Vectors of two numbers, and the example matrix\<close>

lemma sumsq_f32_two:
  "sumsq_f32 [a, b] = f64 (jadd (f64 (jadd (Fin 0) (f64 (jmul a a)))) (f64 (jmul b b)))"
  by (simp add: sumsq_f32_def)

lemma normalizeVec_f32_two:
  "normalizeVec_f32 [a, b] =
     [f32 (f64 (jdiv a (norm_or_1_f32 [a, b]))), f32 (f64 (jdiv b (norm_or_1_f32 [a, b])))]"
  by (simp add: normalizeVec_f32_def)

lemma dot_f32_two:
  "dot_f32 [a, b] [c, d] = f64 (jadd (f64 (jadd (Fin 0) (f64 (jmul a c)))) (f64 (jmul b d)))"
  by (simp add: dot_f32_def rd_def upt_rec)

lemma demo_rounded_search:
  "topKSimilar_f32 demo_rounded [c, d] k ex =
     (let q = normalizeVec_f32 [c, d];
          sa = f32 (dot_f32 [Fin (- c29), Fin c22] q);
          sb = f32 (dot_f32 [Fin c29, Fin (- c22)] q)
      in Inr (walk [''a'', ''b''] [sa, sb] k ex
                (if positive (f64 (jsub sb sa)) then [1, 0] else [0, 1]) []))"
  by (simp add: topKSimilar_f32_def demo_rounded_def similarities_f32_def ranked_f32_def
      sort_cmp_def getRow_def Let_def upt_rec)

subsection \<open>The roundings of the examples, one operation at a time\<close>

lemma round_1: "f64 (jmul (Fin 22) (Fin 22)) = Fin 484"
  using rnd_cert[where p = 53 and k = 44 and n = "8514618045497344" and x = "22 * 22"] by simp

lemma round_2: "f64 (jadd (Fin 0) (Fin 484)) = Fin 484"
  using rnd_cert[where p = 53 and k = 44 and n = "8514618045497344" and x = "0 + 484"] by simp

lemma round_3: "f64 (jmul (Fin 29) (Fin 29)) = Fin 841"
  using rnd_cert[where p = 53 and k = 43 and n = "7397514231676928" and x = "29 * 29"] by simp

lemma round_4: "f64 (jadd (Fin 484) (Fin 841)) = Fin 1325"
  using rnd_cert[where p = 53 and k = 42 and n = "5827411627212800" and x = "484 + 841"] by simp

lemma round_5: "f64 (jsqrt (Fin 1325)) = Fin (2561460951920313 / 2 ^ 46)"
  using rnd_sqrt_cert[where p = 53 and k = 47 and n = 5122921903840626 and s = "1325"] by simp

lemma round_6: "truthy (Fin (2561460951920313 / 2 ^ 46)) = True"
  by simp

lemma round_7: "f64 (jdiv (Fin 22) (Fin (2561460951920313 / 2 ^ 46))) = Fin (2721914732304755 / 2 ^ 52)"
  using rnd_cert[where p = 53 and k = 53 and n = "5443829464609510" and x = "22 / (2561460951920313 / 2 ^ 46)"] by simp

lemma round_8: "f32 (Fin (2721914732304755 / 2 ^ 52)) = Fin c22"
  unfolding c22_def
  using rnd_cert[where p = 24 and k = 24 and n = "10139923" and x = "(2721914732304755 / 2 ^ 52)"] by simp

lemma round_9: "f64 (jdiv (Fin 29) (Fin (2561460951920313 / 2 ^ 46))) = Fin (3587978510765359 / 2 ^ 52)"
  using rnd_cert[where p = 53 and k = 53 and n = "7175957021530718" and x = "29 / (2561460951920313 / 2 ^ 46)"] by simp

lemma round_10: "f32 (Fin (3587978510765359 / 2 ^ 52)) = Fin c29"
  unfolding c29_def
  using rnd_cert[where p = 24 and k = 24 and n = "13366262" and x = "(3587978510765359 / 2 ^ 52)"] by simp

lemma round_11: "f64 (jmul (Fin c22) (Fin c22)) = Fin (102818038445929 / 2 ^ 48)"
  unfolding c22_def
  using rnd_cert[where p = 53 and k = 54 and n = "6580354460539456" and x = "(10139923 / 2 ^ 24) * (10139923 / 2 ^ 24)"] by simp

lemma round_12: "f64 (jadd (Fin 0) (Fin (102818038445929 / 2 ^ 48))) = Fin (102818038445929 / 2 ^ 48)"
  using rnd_cert[where p = 53 and k = 54 and n = "6580354460539456" and x = "0 + (102818038445929 / 2 ^ 48)"] by simp

lemma round_13: "f64 (jmul (Fin c29) (Fin c29)) = Fin (44664239963161 / 2 ^ 46)"
  unfolding c29_def
  using rnd_cert[where p = 53 and k = 53 and n = "5717022715284608" and x = "(6683131 / 2 ^ 23) * (6683131 / 2 ^ 23)"] by simp

lemma round_14: "f64 (jadd (Fin (102818038445929 / 2 ^ 48)) (Fin (44664239963161 / 2 ^ 46))) = Fin (281474998298573 / 2 ^ 48)"
  using rnd_cert[where p = 53 and k = 52 and n = "4503599972777168" and x = "(102818038445929 / 2 ^ 48) + (44664239963161 / 2 ^ 46)"] by simp

lemma round_15: "f64 (jsqrt (Fin (281474998298573 / 2 ^ 48))) = Fin (4503599800073829 / 2 ^ 52)"
  using rnd_sqrt_cert[where p = 53 and k = 52 and n = 4503599800073829 and s = "(281474998298573 / 2 ^ 48)"] by simp

lemma round_16: "truthy (Fin (4503599800073829 / 2 ^ 52)) = True"
  by simp

lemma round_17: "f64 (jdiv (Fin c22) (Fin (4503599800073829 / 2 ^ 52))) = Fin (5443829499860655 / 2 ^ 53)"
  unfolding c22_def
  using rnd_cert[where p = 53 and k = 53 and n = "5443829499860655" and x = "(10139923 / 2 ^ 24) / (4503599800073829 / 2 ^ 52)"] by simp

lemma round_18: "f32 (Fin (5443829499860655 / 2 ^ 53)) = Fin c22"
  unfolding c22_def
  using rnd_cert[where p = 24 and k = 24 and n = "10139923" and x = "(5443829499860655 / 2 ^ 53)"] by simp

lemma round_19: "f64 (jdiv (Fin c29) (Fin (4503599800073829 / 2 ^ 52))) = Fin (7175956994788469 / 2 ^ 53)"
  unfolding c29_def
  using rnd_cert[where p = 53 and k = 53 and n = "7175956994788469" and x = "(6683131 / 2 ^ 23) / (4503599800073829 / 2 ^ 52)"] by simp

lemma round_20: "f32 (Fin (7175956994788469 / 2 ^ 53)) = Fin c29_again"
  unfolding c29_again_def
  using rnd_cert[where p = 24 and k = 24 and n = "13366261" and x = "(7175956994788469 / 2 ^ 53)"] by simp

lemma round_21: "f64 (jmul (Fin (- 29)) (Fin (- 29))) = Fin 841"
  using rnd_cert[where p = 53 and k = 43 and n = "7397514231676928" and x = "(- 29) * (- 29)"] by simp

lemma round_22: "f64 (jadd (Fin 0) (Fin 841)) = Fin 841"
  using rnd_cert[where p = 53 and k = 43 and n = "7397514231676928" and x = "0 + 841"] by simp

lemma round_23: "f64 (jadd (Fin 841) (Fin 484)) = Fin 1325"
  using rnd_cert[where p = 53 and k = 42 and n = "5827411627212800" and x = "841 + 484"] by simp

lemma round_24: "f64 (jdiv (Fin (- 29)) (Fin (2561460951920313 / 2 ^ 46))) = Fin (- (3587978510765359 / 2 ^ 52))"
  using rnd_cert[where p = 53 and k = 53 and n = "- 7175957021530718" and x = "(- 29) / (2561460951920313 / 2 ^ 46)"] by simp

lemma round_25: "f32 (Fin (- (3587978510765359 / 2 ^ 52))) = Fin (- c29)"
  unfolding c29_def
  using rnd_cert[where p = 24 and k = 24 and n = "- 13366262" and x = "(- (3587978510765359 / 2 ^ 52))"] by simp

lemma round_26: "f64 (jmul (Fin (- 22)) (Fin (- 22))) = Fin 484"
  using rnd_cert[where p = 53 and k = 44 and n = "8514618045497344" and x = "(- 22) * (- 22)"] by simp

lemma round_27: "f64 (jdiv (Fin (- 22)) (Fin (2561460951920313 / 2 ^ 46))) = Fin (- (2721914732304755 / 2 ^ 52))"
  using rnd_cert[where p = 53 and k = 53 and n = "- 5443829464609510" and x = "(- 22) / (2561460951920313 / 2 ^ 46)"] by simp

lemma round_28: "f32 (Fin (- (2721914732304755 / 2 ^ 52))) = Fin (- c22)"
  unfolding c22_def
  using rnd_cert[where p = 24 and k = 24 and n = "- 10139923" and x = "(- (2721914732304755 / 2 ^ 52))"] by simp

lemma round_29: "f64 (jmul (Fin (- c29)) (Fin c22)) = Fin (- (67766433738913 / 2 ^ 47))"
  unfolding c22_def c29_def
  using rnd_cert[where p = 53 and k = 54 and n = "- 8674103518580864" and x = "(- (6683131 / 2 ^ 23)) * (10139923 / 2 ^ 24)"] by simp

lemma round_30: "f64 (jadd (Fin 0) (Fin (- (67766433738913 / 2 ^ 47)))) = Fin (- (67766433738913 / 2 ^ 47))"
  using rnd_cert[where p = 53 and k = 54 and n = "- 8674103518580864" and x = "0 + (- (67766433738913 / 2 ^ 47))"] by simp

lemma round_31: "f64 (jmul (Fin c22) (Fin c29)) = Fin (67766433738913 / 2 ^ 47)"
  unfolding c22_def c29_def
  using rnd_cert[where p = 53 and k = 54 and n = "8674103518580864" and x = "(10139923 / 2 ^ 24) * (6683131 / 2 ^ 23)"] by simp

lemma round_32: "f64 (jadd (Fin (- (67766433738913 / 2 ^ 47))) (Fin (67766433738913 / 2 ^ 47))) = Fin 0"
  by (simp add: rnd_def)

lemma round_33: "f32 (Fin 0) = Fin 0"
  by (simp add: rnd_def)

lemma round_34: "f64 (jmul (Fin c29) (Fin c22)) = Fin (67766433738913 / 2 ^ 47)"
  unfolding c22_def c29_def
  using rnd_cert[where p = 53 and k = 54 and n = "8674103518580864" and x = "(6683131 / 2 ^ 23) * (10139923 / 2 ^ 24)"] by simp

lemma round_35: "f64 (jadd (Fin 0) (Fin (67766433738913 / 2 ^ 47))) = Fin (67766433738913 / 2 ^ 47)"
  using rnd_cert[where p = 53 and k = 54 and n = "8674103518580864" and x = "0 + (67766433738913 / 2 ^ 47)"] by simp

lemma round_36: "f64 (jmul (Fin (- c22)) (Fin c29)) = Fin (- (67766433738913 / 2 ^ 47))"
  unfolding c22_def c29_def
  using rnd_cert[where p = 53 and k = 54 and n = "- 8674103518580864" and x = "(- (10139923 / 2 ^ 24)) * (6683131 / 2 ^ 23)"] by simp

lemma round_37: "f64 (jadd (Fin (67766433738913 / 2 ^ 47)) (Fin (- (67766433738913 / 2 ^ 47)))) = Fin 0"
  by (simp add: rnd_def)

lemma round_38: "f64 (jmul (Fin c22) (Fin c29_again)) = Fin (135532857337903 / 2 ^ 48)"
  unfolding c22_def c29_again_def
  using rnd_cert[where p = 53 and k = 54 and n = "8674102869625792" and x = "(10139923 / 2 ^ 24) * (13366261 / 2 ^ 24)"] by simp

lemma round_39: "f64 (jadd (Fin (- (67766433738913 / 2 ^ 47))) (Fin (135532857337903 / 2 ^ 48))) = Fin (- gap)"
  unfolding gap_def
  using rnd_cert[where p = 53 and k = 77 and n = "- 5443829708619776" and x = "(- (67766433738913 / 2 ^ 47)) + (135532857337903 / 2 ^ 48)"] by simp

lemma round_40: "f32 (Fin (- gap)) = Fin (- gap)"
  unfolding gap_def
  using rnd_cert[where p = 24 and k = 48 and n = "- 10139923" and x = "(- (10139923 / 2 ^ 48))"] by simp

lemma round_41: "f64 (jmul (Fin (- c22)) (Fin c29_again)) = Fin (- (135532857337903 / 2 ^ 48))"
  unfolding c22_def c29_again_def
  using rnd_cert[where p = 53 and k = 54 and n = "- 8674102869625792" and x = "(- (10139923 / 2 ^ 24)) * (13366261 / 2 ^ 24)"] by simp

lemma round_42: "f64 (jadd (Fin (67766433738913 / 2 ^ 47)) (Fin (- (135532857337903 / 2 ^ 48)))) = Fin gap"
  unfolding gap_def
  using rnd_cert[where p = 53 and k = 77 and n = "5443829708619776" and x = "(67766433738913 / 2 ^ 47) + (- (135532857337903 / 2 ^ 48))"] by simp

lemma round_43: "f32 (Fin gap) = Fin gap"
  unfolding gap_def
  using rnd_cert[where p = 24 and k = 48 and n = "10139923" and x = "(10139923 / 2 ^ 48)"] by simp

lemma round_44: "f64 (jsub (Fin 0) (Fin 0)) = Fin 0"
  by (simp add: rnd_def)

lemma round_45: "f64 (jsub (Fin gap) (Fin (- gap))) = Fin (10139923 / 2 ^ 47)"
  unfolding gap_def
  using rnd_cert[where p = 53 and k = 76 and n = "5443829708619776" and x = "(10139923 / 2 ^ 48) - (- (10139923 / 2 ^ 48))"] by simp

lemma round_46: "f64 (jmul (Fin 3) (Fin 3)) = Fin 9"
  using rnd_cert[where p = 53 and k = 49 and n = "5066549580791808" and x = "3 * 3"] by simp

lemma round_47: "f64 (jadd (Fin 0) (Fin 9)) = Fin 9"
  using rnd_cert[where p = 53 and k = 49 and n = "5066549580791808" and x = "0 + 9"] by simp

lemma round_48: "f64 (jmul (Fin 4) (Fin 4)) = Fin 16"
  using rnd_cert[where p = 53 and k = 48 and n = "4503599627370496" and x = "4 * 4"] by simp

lemma round_49: "f64 (jadd (Fin 9) (Fin 16)) = Fin 25"
  using rnd_cert[where p = 53 and k = 48 and n = "7036874417766400" and x = "9 + 16"] by simp

lemma round_50: "f64 (jsqrt (Fin 25)) = Fin 5"
  using rnd_sqrt_cert[where p = 53 and k = 50 and n = 5629499534213120 and s = "25"] by simp

lemma round_51: "truthy (Fin 5) = True"
  by simp

lemma round_52: "f64 (jdiv (Fin 3) (Fin 5)) = Fin (5404319552844595 / 2 ^ 53)"
  using rnd_cert[where p = 53 and k = 53 and n = "5404319552844595" and x = "3 / 5"] by simp

lemma round_53: "f32 (Fin (5404319552844595 / 2 ^ 53)) = Fin c06"
  unfolding c06_def
  using rnd_cert[where p = 24 and k = 24 and n = "10066330" and x = "(5404319552844595 / 2 ^ 53)"] by simp

lemma round_54: "f64 (jdiv (Fin 4) (Fin 5)) = Fin (3602879701896397 / 2 ^ 52)"
  using rnd_cert[where p = 53 and k = 53 and n = "7205759403792794" and x = "4 / 5"] by simp

lemma round_55: "f32 (Fin (3602879701896397 / 2 ^ 52)) = Fin c08"
  unfolding c08_def
  using rnd_cert[where p = 24 and k = 24 and n = "13421773" and x = "(3602879701896397 / 2 ^ 52)"] by simp

lemma round_56: "f64 (jmul (Fin c06) (Fin c06)) = Fin (25332749917225 / 2 ^ 46)"
  unfolding c06_def
  using rnd_cert[where p = 53 and k = 54 and n = "6485183978809600" and x = "(5033165 / 2 ^ 23) * (5033165 / 2 ^ 23)"] by simp

lemma round_57: "f64 (jadd (Fin 0) (Fin (25332749917225 / 2 ^ 46))) = Fin (25332749917225 / 2 ^ 46)"
  using rnd_cert[where p = 53 and k = 54 and n = "6485183978809600" and x = "0 + (25332749917225 / 2 ^ 46)"] by simp

lemma round_58: "f64 (jmul (Fin c08) (Fin c08)) = Fin (180143990463529 / 2 ^ 48)"
  unfolding c08_def
  using rnd_cert[where p = 53 and k = 53 and n = "5764607694832928" and x = "(13421773 / 2 ^ 24) * (13421773 / 2 ^ 24)"] by simp

lemma round_59: "f64 (jadd (Fin (25332749917225 / 2 ^ 46)) (Fin (180143990463529 / 2 ^ 48))) = Fin (281474990132429 / 2 ^ 48)"
  using rnd_cert[where p = 53 and k = 52 and n = "4503599842118864" and x = "(25332749917225 / 2 ^ 46) + (180143990463529 / 2 ^ 48)"] by simp

lemma round_60: "f64 (jsqrt (Fin (281474990132429 / 2 ^ 48))) = Fin (4503599734744679 / 2 ^ 52)"
  using rnd_sqrt_cert[where p = 53 and k = 52 and n = 4503599734744679 and s = "(281474990132429 / 2 ^ 48)"] by simp

lemma round_61: "truthy (Fin (4503599734744679 / 2 ^ 52)) = True"
  by simp

lemma round_62: "f64 (jdiv (Fin c06) (Fin (4503599734744679 / 2 ^ 52))) = Fin (2702159819371969 / 2 ^ 52)"
  unfolding c06_def
  using rnd_cert[where p = 53 and k = 53 and n = "5404319638743938" and x = "(5033165 / 2 ^ 23) / (4503599734744679 / 2 ^ 52)"] by simp

lemma round_63: "f32 (Fin (2702159819371969 / 2 ^ 52)) = Fin c06"
  unfolding c06_def
  using rnd_cert[where p = 24 and k = 24 and n = "10066330" and x = "(2702159819371969 / 2 ^ 52)"] by simp

lemma round_64: "f64 (jdiv (Fin c08) (Fin (4503599734744679 / 2 ^ 52))) = Fin (7205759339368285 / 2 ^ 53)"
  unfolding c08_def
  using rnd_cert[where p = 53 and k = 53 and n = "7205759339368285" and x = "(13421773 / 2 ^ 24) / (4503599734744679 / 2 ^ 52)"] by simp

lemma round_65: "f32 (Fin (7205759339368285 / 2 ^ 53)) = Fin c08"
  unfolding c08_def
  using rnd_cert[where p = 24 and k = 24 and n = "13421773" and x = "(7205759339368285 / 2 ^ 53)"] by simp

lemma round_66: "f64 (jmul (Fin (- c29)) (Fin c06)) = Fin (- (33637301039615 / 2 ^ 46))"
  unfolding c06_def c29_def
  using rnd_cert[where p = 53 and k = 54 and n = "- 8611149066141440" and x = "(- (6683131 / 2 ^ 23)) * (5033165 / 2 ^ 23)"] by simp

lemma round_67: "f64 (jadd (Fin 0) (Fin (- (33637301039615 / 2 ^ 46)))) = Fin (- (33637301039615 / 2 ^ 46))"
  using rnd_cert[where p = 53 and k = 54 and n = "- 8611149066141440" and x = "0 + (- (33637301039615 / 2 ^ 46))"] by simp

lemma round_68: "f64 (jmul (Fin c22) (Fin c08)) = Fin (136095744743479 / 2 ^ 48)"
  unfolding c08_def c22_def
  using rnd_cert[where p = 53 and k = 54 and n = "8710127663582656" and x = "(10139923 / 2 ^ 24) * (13421773 / 2 ^ 24)"] by simp

lemma round_69: "f64 (jadd (Fin (- (33637301039615 / 2 ^ 46))) (Fin (136095744743479 / 2 ^ 48))) = Fin (1546540585019 / 2 ^ 48)"
  using rnd_cert[where p = 53 and k = 60 and n = "6334630236237824" and x = "(- (33637301039615 / 2 ^ 46)) + (136095744743479 / 2 ^ 48)"] by simp

lemma round_70: "f32 (Fin (1546540585019 / 2 ^ 48)) = Fin score_3_4"
  unfolding score_3_4_def
  using rnd_cert[where p = 24 and k = 31 and n = "11799168" and x = "(1546540585019 / 2 ^ 48)"] by simp

lemma round_71: "f64 (jmul (Fin c29) (Fin c06)) = Fin (33637301039615 / 2 ^ 46)"
  unfolding c06_def c29_def
  using rnd_cert[where p = 53 and k = 54 and n = "8611149066141440" and x = "(6683131 / 2 ^ 23) * (5033165 / 2 ^ 23)"] by simp

lemma round_72: "f64 (jadd (Fin 0) (Fin (33637301039615 / 2 ^ 46))) = Fin (33637301039615 / 2 ^ 46)"
  using rnd_cert[where p = 53 and k = 54 and n = "8611149066141440" and x = "0 + (33637301039615 / 2 ^ 46)"] by simp

lemma round_73: "f64 (jmul (Fin (- c22)) (Fin c08)) = Fin (- (136095744743479 / 2 ^ 48))"
  unfolding c08_def c22_def
  using rnd_cert[where p = 53 and k = 54 and n = "- 8710127663582656" and x = "(- (10139923 / 2 ^ 24)) * (13421773 / 2 ^ 24)"] by simp

lemma round_74: "f64 (jadd (Fin (33637301039615 / 2 ^ 46)) (Fin (- (136095744743479 / 2 ^ 48)))) = Fin (- (1546540585019 / 2 ^ 48))"
  using rnd_cert[where p = 53 and k = 60 and n = "- 6334630236237824" and x = "(33637301039615 / 2 ^ 46) + (- (136095744743479 / 2 ^ 48))"] by simp

lemma round_75: "f32 (Fin (- (1546540585019 / 2 ^ 48))) = Fin (- score_3_4)"
  unfolding score_3_4_def
  using rnd_cert[where p = 24 and k = 31 and n = "- 11799168" and x = "(- (1546540585019 / 2 ^ 48))"] by simp

lemma round_76: "f64 (jsub (Fin (- score_3_4)) (Fin score_3_4)) = Fin (- (92181 / 2 ^ 23))"
  unfolding score_3_4_def
  using rnd_cert[where p = 53 and k = 59 and n = "- 6334630085001216" and x = "(- (92181 / 2 ^ 24)) - (92181 / 2 ^ 24)"] by simp

subsection \<open>The examples\<close>

lemma normalize_22_29: "normalizeVec_f32 [Fin 22, Fin 29] = [Fin c22, Fin c29]"
  unfolding normalizeVec_f32_two norm_or_1_f32_def sumsq_f32_two Let_def
    round_1 round_2 round_3 round_4 round_5 round_6 round_7 round_8 round_9 round_10 if_True
  by (rule refl)

lemma normalize_22_29_again: "normalizeVec_f32 [Fin c22, Fin c29] = [Fin c22, Fin c29_again]"
  unfolding normalizeVec_f32_two norm_or_1_f32_def sumsq_f32_two Let_def
    round_11 round_12 round_13 round_14 round_15 round_16 round_17 round_18 round_19
    round_20 if_True
  by (rule refl)

lemma normalize_row_a: "normalizeVec_f32 [Fin (- 29), Fin 22] = [Fin (- c29), Fin c22]"
  unfolding normalizeVec_f32_two norm_or_1_f32_def sumsq_f32_two Let_def
    round_21 round_22 round_1 round_23 round_5 round_6 round_24 round_25 round_7
    round_8 if_True
  by (rule refl)

lemma normalize_row_b: "normalizeVec_f32 [Fin 29, Fin (- 22)] = [Fin c29, Fin (- c22)]"
  unfolding normalizeVec_f32_two norm_or_1_f32_def sumsq_f32_two Let_def
    round_3 round_22 round_26 round_23 round_5 round_6 round_9 round_10 round_27
    round_28 if_True
  by (rule refl)

lemma score_a_once: "f32 (dot_f32 [Fin (- c29), Fin c22] [Fin c22, Fin c29]) = Fin 0"
  unfolding dot_f32_two
    round_29 round_30 round_31 round_32 round_33
  by (rule refl)

lemma score_b_once: "f32 (dot_f32 [Fin c29, Fin (- c22)] [Fin c22, Fin c29]) = Fin 0"
  unfolding dot_f32_two
    round_34 round_35 round_36 round_37 round_33
  by (rule refl)

lemma score_a_twice: "f32 (dot_f32 [Fin (- c29), Fin c22] [Fin c22, Fin c29_again]) = Fin (- gap)"
  unfolding dot_f32_two
    round_29 round_30 round_38 round_39 round_40
  by (rule refl)

lemma score_b_twice: "f32 (dot_f32 [Fin c29, Fin (- c22)] [Fin c22, Fin c29_again]) = Fin gap"
  unfolding dot_f32_two
    round_34 round_35 round_41 round_42 round_43
  by (rule refl)

lemma order_once: "\<not> positive (f64 (jsub (Fin 0) (Fin 0)))"
  unfolding round_44 by simp

lemma order_twice: "positive (f64 (jsub (Fin gap) (Fin (- gap))))"
  unfolding round_45 by simp

lemma normalize_3_4: "normalizeVec_f32 [Fin 3, Fin 4] = [Fin c06, Fin c08]"
  unfolding normalizeVec_f32_two norm_or_1_f32_def sumsq_f32_two Let_def
    round_46 round_47 round_48 round_49 round_50 round_51 round_52 round_53 round_54
    round_55 if_True
  by (rule refl)

lemma normalize_3_4_again: "normalizeVec_f32 [Fin c06, Fin c08] = [Fin c06, Fin c08]"
  unfolding normalizeVec_f32_two norm_or_1_f32_def sumsq_f32_two Let_def
    round_56 round_57 round_58 round_59 round_60 round_61 round_62 round_63 round_64
    round_65 if_True
  by (rule refl)

lemma score_a_3_4: "f32 (dot_f32 [Fin (- c29), Fin c22] [Fin c06, Fin c08]) = Fin score_3_4"
  unfolding dot_f32_two
    round_66 round_67 round_68 round_69 round_70
  by (rule refl)

lemma score_b_3_4: "f32 (dot_f32 [Fin c29, Fin (- c22)] [Fin c06, Fin c08]) = Fin (- score_3_4)"
  unfolding dot_f32_two
    round_71 round_72 round_73 round_74 round_75
  by (rule refl)

lemma order_3_4: "\<not> positive (f64 (jsub (Fin (- score_3_4)) (Fin score_3_4)))"
  unfolding round_76 by simp

subsection \<open>The two query conventions\<close>

lemma search_22_29_raw:
  "topKSimilar_f32 demo_rounded [Fin 22, Fin 29] 1 {}
     = Inr [\<lparr>word = ''a'', score = Fin 0, index = 0\<rparr>]"
  by (simp only: demo_rounded_search Let_def normalize_22_29 score_a_once score_b_once
      order_once if_False) simp

lemma search_22_29_normalised:
  "topKSimilar_f32 demo_rounded (normalizeVec_f32 [Fin 22, Fin 29]) 1 {}
     = Inr [\<lparr>word = ''b'', score = Fin gap, index = 1\<rparr>]"
  by (simp only: demo_rounded_search Let_def normalize_22_29 normalize_22_29_again
      score_a_twice score_b_twice order_twice if_True) simp

lemma search_3_4_raw:
  "topKSimilar_f32 demo_rounded [Fin 3, Fin 4] 1 {}
     = Inr [\<lparr>word = ''a'', score = Fin score_3_4, index = 0\<rparr>]"
  by (simp only: demo_rounded_search Let_def normalize_3_4 score_a_3_4 score_b_3_4
      order_3_4 if_False) simp

text \<open>
  C9 (as amended). With the roundings of the code, \<^verbatim>\<open>topKSimilar\<close> over a normalised
  matrix scores the rows against the normalised \<open>t\<close> when it is given the raw sum \<open>t\<close>, as
  in \<^verbatim>\<open>src/unnamed/part_002\<close>, and against the twice normalised \<open>t\<close> when it is given
  the vector normalised beforehand, as in \<^verbatim>\<open>src/server/index.js\<close>. Whenever the second
  normalisation changes no component of the first, or the matrix is not normalised, the two
  calls return the same neighbours with the same scores.
\<close>

theorem rounded_conventions_agree:
  assumes "normalized s \<longrightarrow> normalizeVec_f32 (normalizeVec_f32 t) = normalizeVec_f32 t"
  shows "topKSimilar_f32 s (if normalized s then normalizeVec_f32 t else t) k ex
           = topKSimilar_f32 s t k ex"
  using assms by (simp add: topKSimilar_f32_def)

text \<open>
  C9 as stated fails: in single precision, normalising twice is not normalising once. The
  second normalisation of \<open>(22, 29)\<close> moves the second component by one unit in the last
  place. Over the normalised matrix whose rows \<open>a\<close> and \<open>b\<close> are \<open>(-29, 22)\<close> and
  \<open>(29, -22)\<close> normalised, the call with the raw vector scores both rows \<open>0\<close> and returns
  \<open>a\<close>, and the call with the vector normalised beforehand scores them \<open>- gap\<close> and
  \<open>gap\<close> and returns \<open>b\<close>.
\<close>

theorem rounded_conventions_differ:
  "normalized demo_rounded
   \<and> matrix demo_rounded
       = Some (normalizeVec_f32 [Fin (- 29), Fin 22] @ normalizeVec_f32 [Fin 29, Fin (- 22)])
   \<and> normalizeVec_f32 [Fin 22, Fin 29] = [Fin c22, Fin c29]
   \<and> normalizeVec_f32 (normalizeVec_f32 [Fin 22, Fin 29]) = [Fin c22, Fin c29_again]
   \<and> c29 - c29_again = 1 / 2 ^ 24
   \<and> topKSimilar_f32 demo_rounded [Fin 22, Fin 29] 1 {}
       = Inr [\<lparr>word = ''a'', score = Fin 0, index = 0\<rparr>]
   \<and> topKSimilar_f32 demo_rounded (normalizeVec_f32 [Fin 22, Fin 29]) 1 {}
       = Inr [\<lparr>word = ''b'', score = Fin gap, index = 1\<rparr>]
   \<and> 0 < gap"
proof -
  have n: "normalized demo_rounded"
    and m: "matrix demo_rounded = Some [Fin (- c29), Fin c22, Fin c29, Fin (- c22)]"
    by (simp_all add: demo_rounded_def)
  have g: "c29 - c29_again = 1 / 2 ^ 24" "0 < gap"
    by (simp_all add: c29_def c29_again_def gap_def)
  have t: "normalizeVec_f32 (normalizeVec_f32 [Fin 22, Fin 29]) = [Fin c22, Fin c29_again]"
    by (simp only: normalize_22_29 normalize_22_29_again)
  have r: "matrix demo_rounded
       = Some (normalizeVec_f32 [Fin (- 29), Fin 22] @ normalizeVec_f32 [Fin 29, Fin (- 22)])"
    by (simp only: m normalize_row_a normalize_row_b append.simps)
  from n r normalize_22_29 t g(1) search_22_29_raw search_22_29_normalised g(2)
  show ?thesis by (intro conjI)
qed

theorem rounded_conventions_agree_witness:
  "normalized demo_rounded
   \<and> normalizeVec_f32 (normalizeVec_f32 [Fin 3, Fin 4]) = normalizeVec_f32 [Fin 3, Fin 4]
   \<and> topKSimilar_f32 demo_rounded (normalizeVec_f32 [Fin 3, Fin 4]) 1 {}
       = topKSimilar_f32 demo_rounded [Fin 3, Fin 4] 1 {}
   \<and> topKSimilar_f32 demo_rounded [Fin 3, Fin 4] 1 {}
       = Inr [\<lparr>word = ''a'', score = Fin score_3_4, index = 0\<rparr>]"
proof -
  have n: "normalized demo_rounded" by (simp add: demo_rounded_def)
  have i: "normalizeVec_f32 (normalizeVec_f32 [Fin 3, Fin 4]) = normalizeVec_f32 [Fin 3, Fin 4]"
    by (simp only: normalize_3_4 normalize_3_4_again)
  from rounded_conventions_agree[of demo_rounded "[Fin 3, Fin 4]" 1 "{}"] n i search_3_4_raw
  show ?thesis by simp
qed

section \<open>The properties on the example inputs\<close>

lemma sqrt16: "sqrt 16 = 4"
  using real_sqrt_abs[of 4] by simp

lemma demo_normalize4: "normalizeVec [Fin 4] = [Fin 1]"
  by (simp add: normalizeVec_def norm_or_1_def sumsq_def sqrt16)

lemmas demo_env_fields =
      demo_env_def[THEN arg_cong[of _ _ pca_new]]
      demo_env_def[THEN arg_cong[of _ _ pca_predict]]
      demo_env_def[THEN arg_cong[of _ _ pca_explained]]

lemma demo_search0_server:
  "search_server demo_env demo_request0 demo_state = (Inr demo_response_server, demo_state)"
  by (simp add: search_server_def demo_search_loaded demo_request0_def demo_texts
      demo_embedMany demo_fields flatWords_def respond_server_def last_at_def
      avgDelta_of_Nil transformed_of_def rd_def demo_normalize2 demo_topK excludeSet_def
      neighborPoints_def getRow_def makePCA_server_def seedPoints_def Let_def
      demo_env_fields or0_def map_get_def seedLinks_server_def demo_response_server_def)

lemma demo_search0_part002:
  "search_part002 demo_env demo_request0 demo_state = (Inr demo_response_part002, demo_state)"
  by (simp add: search_part002_def demo_search_loaded demo_request0_def demo_texts
      demo_embedMany demo_fields flatWords_def respond_part002_def last_at_def
      avgDelta_of_Nil transformed_of_def rd_def demo_normalize2 demo_topK_2 excludeSet_def
      neighborPoints_def getRow_def makePCA_part002_def try_pca_def place_part002_def seedPoints_def Let_def
      demo_env_fields or0_def upt_rec demo_response_part002_def)

lemma demo_search_pairs:
  "search_part002 demo_env demo_request demo_state = (Inr demo_response_pairs, demo_state)"
  by (simp add: search_part002_def demo_search_loaded demo_request_def demo_texts
      demo_embedMany demo_fields flatWords_def respond_part002_def last_at_def
      avgDelta_of_def transformed_of_def rd_def demo_normalize2 demo_normalize4 excludeSet_def
      neighborPoints_def getRow_def makePCA_part002_def try_pca_def place_part002_def seedPoints_def Let_def
      demo_env_fields or0_def upt_rec elem_at_def vec_at_def delta_of_def
      topKSimilar_def demo_ranked demo_sims demo_response_pairs_def)

text \<open>
  C7 fails on a pair entry that is no array: the loop head \<^verbatim>\<open>for (const [a, b] of pairs)\<close>
  takes the entry apart before the guard on the members is reached, and \<^verbatim>\<open>null\<close> (as a
  number or an object) cannot be taken apart. Over the loaded matrix, the request whose one
  pair entry is \<^verbatim>\<open>null\<close> is rejected with a \<^verbatim>\<open>TypeError\<close> (status 500) in both files,
  while the same request without that entry is answered.
\<close>

theorem null_pair_entry_rejects_request:
  "search_server demo_env demo_request_null demo_state = (Inl TypeError, demo_state)
   \<and> search_part002 demo_env demo_request_null demo_state = (Inl TypeError, demo_state)
   \<and> search_server demo_env (demo_request_null\<lparr>req_pairs := []\<rparr>) demo_state
       = (Inr demo_response_server, demo_state)
   \<and> search_part002 demo_env (demo_request_null\<lparr>req_pairs := []\<rparr>) demo_state
       = (Inr demo_response_part002, demo_state)"
proof -
  have r: "demo_request_null\<lparr>req_pairs := []\<rparr> = demo_request0"
    by (simp add: demo_request_null_def demo_request0_def)
  have c: "collectPairs (req_pairs demo_request_null) = Inl TypeError"
    by (simp add: demo_request_null_def)
  show ?thesis
    unfolding r by (simp add: demo_search0_server demo_search0_part002)
      (simp add: search_server_def search_part002_def demo_search_loaded c)
qed


lemma malformed_pairs_dropped_example:
  "list_all iterable (req_pairs demo_request)
   \<and> filter wellformed (req_pairs demo_request) = [JArr [JStr ''b'', JStr ''a'']]
   \<and> excludeSet (demo_request\<lparr>req_pairs := filter wellformed (req_pairs demo_request)\<rparr>)
       = excludeSet demo_request
   \<and> collectPairs (req_pairs demo_request) = Inr [(''b'', ''a'')]
   \<and> search_server demo_env demo_request demo_state
       = search_server demo_env (demo_request\<lparr>req_pairs := [JArr [JStr ''b'', JStr ''a'']]\<rparr>) demo_state
   \<and> search_part002 demo_env demo_request demo_state
       = search_part002 demo_env (demo_request\<lparr>req_pairs := [JArr [JStr ''b'', JStr ''a'']]\<rparr>) demo_state
   \<and> search_part002 demo_env demo_request demo_state = (Inr demo_response_pairs, demo_state)"
proof -
  have i: "\<forall>p\<in>set (req_pairs demo_request). iterable p" by (simp add: demo_request_def)
  have f: "filter wellformed (req_pairs demo_request) = [JArr [JStr ''b'', JStr ''a'']]"
    by (simp add: demo_request_def wellformed_def elem_at_def)
  have x: "excludeSet (demo_request\<lparr>req_pairs := filter wellformed (req_pairs demo_request)\<rparr>)
       = excludeSet demo_request"
    by (simp add: excludeSet_def demo_request_def)
  have c: "collectPairs (req_pairs demo_request) = Inr [(''b'', ''a'')]"
    by (simp add: demo_request_def elem_at_def)
  from malformed_pairs_dropped[OF i refl, of demo_env demo_state] i f x c demo_search_pairs
  show ?thesis by (simp add: list_all_iff)
qed

theorem search_leaves_cache_witness:
  "matrix demo_state \<noteq> None \<and> embedder demo_state
   \<and> req_template demo_request_tpl = ''I saw {w}''
   \<and> snd (search_server demo_env demo_request_tpl demo_state) = demo_state
   \<and> snd (search_part002 demo_env demo_request_tpl demo_state) = demo_state
   \<and> search_server demo_env demo_request_tpl demo_state
       = search (\<lambda>e t s. (Inl IOError, s)) respond_server demo_env demo_request_tpl demo_state"
proof -
  have m: "matrix demo_state \<noteq> None" and e: "embedder demo_state" by (simp_all add: demo_fields)
  have t: "req_template demo_request_tpl = ''I saw {w}''" by (simp add: demo_request_tpl_def)
  from search_leaves_cache[OF m e, of demo_env demo_request_tpl "\<lambda>e t s. (Inl IOError, s)"] m e t
  show ?thesis by blast
qed

end
